theory Spec2Isabelle
  imports Main "HOL-Library.Char_ord" "HOL-Library.List_Lexorder"
begin

section \<open>Errors\<close>

text \<open>
  The reconcilers see three kinds of Go \<^verbatim>\<open>error\<close>: errors that carry a gRPC status
  (\<^verbatim>\<open>gstatus.FromError\<close> answers \<^verbatim>\<open>ok\<close>), Kubernetes API status errors
  (\<^verbatim>\<open>errors.IsNotFound\<close> looks at their reason), and every other error
  (\<^verbatim>\<open>errors.New\<close>, \<^verbatim>\<open>fmt.Errorf\<close>, HTTP errors of a client library).
  Each one carries the text that \<^verbatim>\<open>err.Error()\<close> prints.
\<close>

datatype code = OK | Canceled | Unknown | InvalidArgument | DeadlineExceeded | NotFound
  | AlreadyExists | PermissionDenied | FailedPrecondition | Internal | Unavailable

datatype StatusReason = StatusReasonNotFound | StatusReasonConflict | StatusReasonAlreadyExists
  | StatusReasonInvalid | StatusReasonUnknown

datatype error =
    StatusError code string
  | APIStatusError StatusReason string
  | ErrorString string

fun Error :: "error \<Rightarrow> string" where
  "Error (StatusError c m) = m"
| "Error (APIStatusError r m) = m"
| "Error (ErrorString m) = m"

text \<open>\<^verbatim>\<open>gstatus.FromError\<close> on a non-nil error: the status code when the error carries one.\<close>

fun FromError :: "error \<Rightarrow> code option" where
  "FromError (StatusError c m) = Some c"
| "FromError (APIStatusError r m) = None"
| "FromError (ErrorString m) = None"

fun IsNotFound :: "error \<Rightarrow> bool" where
  "IsNotFound (APIStatusError r m) = (r = StatusReasonNotFound)"
| "IsNotFound (StatusError c m) = False"
| "IsNotFound (ErrorString m) = False"

section \<open>String sets of the apimachinery (\<^verbatim>\<open>sets.String\<close>)\<close>

text \<open>
  \<^verbatim>\<open>sets.NewString(xs...)\<close> builds the set of the elements, \<^verbatim>\<open>Insert\<close> and
  \<^verbatim>\<open>Delete\<close> add and remove one, \<^verbatim>\<open>Has\<close> tests membership and \<^verbatim>\<open>List\<close> returns
  the elements sorted (\<^verbatim>\<open>sort.Strings\<close>: bytewise lexicographic order).
\<close>

definition NewString :: "string list \<Rightarrow> string set" where
  "NewString xs = set xs"

definition Insert :: "string set \<Rightarrow> string \<Rightarrow> string set" where
  "Insert s x = insert x s"

definition Delete :: "string set \<Rightarrow> string \<Rightarrow> string set" where
  "Delete s x = s - {x}"

definition Has :: "string set \<Rightarrow> string \<Rightarrow> bool" where
  "Has s x = (x \<in> s)"

definition List :: "string set \<Rightarrow> string list" where
  "List s = sorted_list_of_set s"

section \<open>Conditions\<close>

datatype ConditionStatus = ConditionTrue | ConditionFalse | ConditionUnknown

datatype ConditionType =
    PubSubTopicReady | PubSubSourceReady | GCSReady
  | SinkProvided | Subscribed | Deployed

record Condition =
  ctype :: ConditionType
  cstatus :: ConditionStatus
  reason :: string
  message :: string

text \<open>
  Modelled from the spec: the condition manager of the API types
  (\<^verbatim>\<open>InitializeConditions\<close>, \<^verbatim>\<open>MarkTrue\<close>, \<^verbatim>\<open>MarkFalse\<close>, \<^verbatim>\<open>IsReady\<close>) is not among
  the sources. Following the spec, conditions are an ordered mapping from condition type
  to the latest value: marking overwrites the entry of that type or appends a new one,
  initialising sets every absent dependent condition to Unknown, and a status is ready
  iff every dependent condition is True.
\<close>

fun setCondition :: "Condition \<Rightarrow> Condition list \<Rightarrow> Condition list" where
  "setCondition c [] = [c]"
| "setCondition c (d # ds) = (if ctype d = ctype c then c # ds else d # setCondition c ds)"

fun getCondition :: "ConditionType \<Rightarrow> Condition list \<Rightarrow> Condition option" where
  "getCondition t [] = None"
| "getCondition t (d # ds) = (if ctype d = t then Some d else getCondition t ds)"

definition markTrue :: "ConditionType \<Rightarrow> Condition list \<Rightarrow> Condition list" where
  "markTrue t cs = setCondition \<lparr>ctype = t, cstatus = ConditionTrue, reason = '''', message = ''''\<rparr> cs"

definition markFalse :: "ConditionType \<Rightarrow> string \<Rightarrow> string \<Rightarrow> Condition list \<Rightarrow> Condition list" where
  "markFalse t r m cs = setCondition \<lparr>ctype = t, cstatus = ConditionFalse, reason = r, message = m\<rparr> cs"

fun initializeConditions :: "ConditionType list \<Rightarrow> Condition list \<Rightarrow> Condition list" where
  "initializeConditions [] cs = cs"
| "initializeConditions (t # ts) cs =
     initializeConditions ts
       (case getCondition t cs of
          None \<Rightarrow> setCondition \<lparr>ctype = t, cstatus = ConditionUnknown, reason = '''', message = ''''\<rparr> cs
        | Some d \<Rightarrow> cs)"

section \<open>Resource records\<close>

record ObjectMeta =
  Name :: string
  Namespace :: string
  UID :: string
  ResourceVersion :: string
  Generation :: int
  DeletionTimestamp :: "nat option"
  Finalizers :: "string list"

text \<open>A sink or transformer reference (\<^verbatim>\<open>corev1.ObjectReference\<close>).\<close>

record ObjectReference =
  RefKind :: string
  RefName :: string

record GCSSpec =
  GoogleCloudProject :: string
  Bucket :: string
  Sink :: ObjectReference
  EventTypes :: "string list"
  ObjectNamePrefix :: string
  CustomAttributes :: "string \<rightharpoonup> string"

record GCSStatus =
  Conditions :: "Condition list"
  Topic :: string
  NotificationID :: string
  SinkURI :: string

text \<open>
  A resource is its metadata, its spec and its status. Both kinds reconciled here
  (\<^verbatim>\<open>v1alpha1.GCS\<close> and \<^verbatim>\<open>v1alpha1.PubSubSource\<close>) have this shape.
\<close>

record ('spec, 'status) resource =
  ObjectMeta :: ObjectMeta
  Spec :: 'spec
  Status :: 'status

type_synonym GCS = "(GCSSpec, GCSStatus) resource"

text \<open>\<^verbatim>\<open>storage.Notification\<close>.\<close>

record Notification =
  ID :: string
  TopicProjectID :: string
  TopicID :: string
  PayloadFormat :: string
  NotificationEventTypes :: "string list"
  NotificationObjectNamePrefix :: string
  NotificationCustomAttributes :: "string \<rightharpoonup> string"

definition JSONPayload :: string where
  "JSONPayload = ''JSON_API_V1''"

text \<open>
  The \<^verbatim>\<open>PullSubscription\<close> that backs a GCS source. The reconciler reads only whether
  its status is ready and its sink URI (the latter for logging).
\<close>

record PullSubscription =
  PullSubscriptionName :: string
  PullSubscriptionNamespace :: string
  PullSubscriptionIsReady :: bool

text \<open>
  The methods of \<^verbatim>\<open>GCSStatus\<close> called by the reconciler.
  Modelled from the spec: the API types package is not among the sources; each method
  marks the condition of its step through the condition manager above, with the reason
  and message it is given.
\<close>

definition gcsConditionTypes :: "ConditionType list" where
  "gcsConditionTypes = [PubSubTopicReady, PubSubSourceReady, GCSReady]"

definition InitializeConditions :: "GCSStatus \<Rightarrow> GCSStatus" where
  "InitializeConditions s = s\<lparr>Conditions := initializeConditions gcsConditionTypes (Conditions s)\<rparr>"

definition MarkPubSubTopicNotReady :: "string \<Rightarrow> string \<Rightarrow> GCSStatus \<Rightarrow> GCSStatus" where
  "MarkPubSubTopicNotReady r m s = s\<lparr>Conditions := markFalse PubSubTopicReady r m (Conditions s)\<rparr>"

definition MarkPubSubTopicReady :: "GCSStatus \<Rightarrow> GCSStatus" where
  "MarkPubSubTopicReady s = s\<lparr>Conditions := markTrue PubSubTopicReady (Conditions s)\<rparr>"

definition MarkPubSubSourceNotReady :: "string \<Rightarrow> string \<Rightarrow> GCSStatus \<Rightarrow> GCSStatus" where
  "MarkPubSubSourceNotReady r m s = s\<lparr>Conditions := markFalse PubSubSourceReady r m (Conditions s)\<rparr>"

definition MarkPubSubSourceReady :: "GCSStatus \<Rightarrow> GCSStatus" where
  "MarkPubSubSourceReady s = s\<lparr>Conditions := markTrue PubSubSourceReady (Conditions s)\<rparr>"

definition MarkGCSNotReady :: "string \<Rightarrow> string \<Rightarrow> GCSStatus \<Rightarrow> GCSStatus" where
  "MarkGCSNotReady r m s = s\<lparr>Conditions := markFalse GCSReady r m (Conditions s)\<rparr>"

definition MarkGCSReady :: "GCSStatus \<Rightarrow> GCSStatus" where
  "MarkGCSReady s = s\<lparr>Conditions := markTrue GCSReady (Conditions s)\<rparr>"

section \<open>The PubSubSource records\<close>

text \<open>
  \<^verbatim>\<open>v1alpha1.PubSubSource\<close>. Its \<^verbatim>\<open>Spec.Topic\<close>, \<^verbatim>\<open>Spec.Sink\<close>,
  \<^verbatim>\<open>Status.Conditions\<close> and \<^verbatim>\<open>Status.SinkURI\<close> are the fields \<open>SourceTopic\<close>,
  \<open>SourceSink\<close>, \<open>SourceConditions\<close> and \<open>SourceSinkURI\<close> here, the plain names being
  those of the GCS records.
\<close>

record PubSubSourceSpec =
  Project :: string
  SourceTopic :: string
  SourceSink :: ObjectReference
  Transformer :: "ObjectReference option"

record PubSubSourceStatus =
  SourceConditions :: "Condition list"
  SourceSinkURI :: string
  ProjectID :: string
  ObservedGeneration :: int

type_synonym PubSubSource = "(PubSubSourceSpec, PubSubSourceStatus) resource"

text \<open>
  An \<^verbatim>\<open>appsv1.Deployment\<close>: its name and the UID of the owner reference that is its
  controller, when it has one (what \<^verbatim>\<open>metav1.IsControlledBy\<close> reads).
\<close>

record Deployment =
  DeploymentName :: string
  ControllerUID :: "string option"

definition IsControlledBy :: "Deployment \<Rightarrow> ('a, 'b) resource \<Rightarrow> bool" where
  "IsControlledBy dep owner = (ControllerUID dep = Some (UID (ObjectMeta owner)))"

text \<open>
  The methods of \<^verbatim>\<open>PubSubSourceStatus\<close> called by the reconciler.
  Modelled from the spec: the API types package is not among the sources; each method
  marks the condition of its step through the condition manager above, and
  \<^verbatim>\<open>MarkSink\<close> also stores the resolved sink URI.
\<close>

definition sourceConditionTypes :: "ConditionType list" where
  "sourceConditionTypes = [SinkProvided, Subscribed, Deployed]"

definition SourceInitializeConditions :: "PubSubSourceStatus \<Rightarrow> PubSubSourceStatus" where
  "SourceInitializeConditions s =
     s\<lparr>SourceConditions := initializeConditions sourceConditionTypes (SourceConditions s)\<rparr>"

definition MarkNoSink :: "string \<Rightarrow> string \<Rightarrow> PubSubSourceStatus \<Rightarrow> PubSubSourceStatus" where
  "MarkNoSink r m s = s\<lparr>SourceConditions := markFalse SinkProvided r m (SourceConditions s)\<rparr>"

definition MarkSink :: "string \<Rightarrow> PubSubSourceStatus \<Rightarrow> PubSubSourceStatus" where
  "MarkSink uri s =
     s\<lparr>SourceSinkURI := uri, SourceConditions := markTrue SinkProvided (SourceConditions s)\<rparr>"

definition MarkSubscribed :: "PubSubSourceStatus \<Rightarrow> PubSubSourceStatus" where
  "MarkSubscribed s = s\<lparr>SourceConditions := markTrue Subscribed (SourceConditions s)\<rparr>"

definition MarkDeployed :: "PubSubSourceStatus \<Rightarrow> PubSubSourceStatus" where
  "MarkDeployed s = s\<lparr>SourceConditions := markTrue Deployed (SourceConditions s)\<rparr>"

section \<open>Calls to the outside and their answers\<close>

text \<open>
  Every call a reconciler makes to the provider, to the resolver of sink references or to
  the API server is recorded, in order. Reads of the informer cache (the listers),
  logging, event recording and metrics are not recorded.
\<close>

datatype call =
    GetSinkURI ObjectReference string
  | PubSubNewClient string
  | TopicExists string string
  | CreateTopic string string
  | TopicDelete string string
  | StorageNewClient
  | BucketNotifications string
  | AddNotification string Notification
  | DeleteNotification string string
  | PullSubscriptionsGet string string
  | PullSubscriptionsCreate string PullSubscription
  | GCSsUpdateStatus GCS
  | MetadataProjectID
  | PubSubClientCreator string
  | SubscriptionExists string string
  | CreateSubscription string string string
  | SubscriptionDelete string string
  | DeploymentsList string string
  | DeploymentsCreate string Deployment
  | PubSubSourcesUpdateStatus PubSubSource
  | PubSubSourcesPatch string string "string list" string

text \<open>
  An event is a call together with the finalizers the in-memory copy of the resource
  holds at the moment of the call.
\<close>

type_synonym event = "call \<times> string list"

definition stamp :: "('a, 'b) resource \<Rightarrow> call list \<Rightarrow> event list" where
  "stamp r cs = map (\<lambda>c. (c, Finalizers (ObjectMeta r))) cs"

text \<open>
  What both reconcilers take from their surroundings: the name of the controller
  (\<^verbatim>\<open>controllerAgentName\<close>, declared in a file that is not among the sources), the
  splitting of a work-queue key and the resolution of a sink reference.
\<close>

record base_env =
  controllerAgentName :: string
  onSplitMetaNamespaceKey :: "string \<Rightarrow> error + (string \<times> string)"
  onGetSinkURI :: "ObjectReference \<Rightarrow> string \<Rightarrow> error + string"

definition finalizerName :: "'a base_env_scheme \<Rightarrow> string" where
  "finalizerName c = controllerAgentName c"

text \<open>
  The surroundings of the GCS reconciler: the answers of the Pub/Sub and Cloud Storage
  clients, of the PullSubscription client, of the lister and of the status update, the
  UUID drawn for a topic name, and \<^verbatim>\<open>resources.MakePullSubscription\<close> (not among the
  sources). An answer is a function of the arguments of the call.
\<close>

record gcs_env = base_env +
  onUUIDNew :: string
  onPubSubNewClient :: "string \<Rightarrow> error option"
  onTopicExists :: "string \<Rightarrow> string \<Rightarrow> error + bool"
  onCreateTopic :: "string \<Rightarrow> string \<Rightarrow> error option"
  onTopicDelete :: "string \<Rightarrow> string \<Rightarrow> error option"
  onStorageNewClient :: "error option"
  onBucketNotifications :: "string \<Rightarrow> error + (string \<rightharpoonup> Notification)"
  onAddNotification :: "string \<Rightarrow> Notification \<Rightarrow> error + Notification"
  onDeleteNotification :: "string \<Rightarrow> string \<Rightarrow> error option"
  onPullSubscriptionsGet :: "string \<Rightarrow> string \<Rightarrow> error + PullSubscription"
  onPullSubscriptionsCreate :: "string \<Rightarrow> PullSubscription \<Rightarrow> error + PullSubscription"
  MakePullSubscription :: "GCS \<Rightarrow> string \<Rightarrow> PullSubscription"
  gcsLister :: "string \<Rightarrow> string \<Rightarrow> error + GCS"
  onGCSsUpdateStatus :: "GCS \<Rightarrow> error + GCS"

section \<open>The GCS reconciler (\<^verbatim>\<open>pkg/reconciler/gcs/gcs.go\<close>)\<close>

definition addFinalizer :: "'a base_env_scheme \<Rightarrow> ('s, 't) resource \<Rightarrow> ('s, 't) resource" where
  "addFinalizer c csr =
     (let finalizers = NewString (Finalizers (ObjectMeta csr));
          finalizers = Insert finalizers (finalizerName c)
      in csr\<lparr>ObjectMeta := (ObjectMeta csr)\<lparr>Finalizers := List finalizers\<rparr>\<rparr>)"

definition removeFinalizer :: "'a base_env_scheme \<Rightarrow> ('s, 't) resource \<Rightarrow> ('s, 't) resource" where
  "removeFinalizer c csr =
     (let finalizers = NewString (Finalizers (ObjectMeta csr));
          finalizers = Delete finalizers (finalizerName c)
      in csr\<lparr>ObjectMeta := (ObjectMeta csr)\<lparr>Finalizers := List finalizers\<rparr>\<rparr>)"

definition reconcileTopic :: "gcs_env \<Rightarrow> GCS \<Rightarrow> error option \<times> GCS \<times> call list" where
  "reconcileTopic c csr0 =
     (let csr = (if Topic (Status csr0) = ''''
                 then csr0\<lparr>Status := (Status csr0)\<lparr>Topic := ''gcs-'' @ onUUIDNew c\<rparr>\<rparr>
                 else csr0);
          project = GoogleCloudProject (Spec csr);
          topic = Topic (Status csr)
      in case onPubSubNewClient c project of
           Some err \<Rightarrow> (Some err, csr, [PubSubNewClient project])
         | None \<Rightarrow>
             (case onTopicExists c project topic of
                Inl err \<Rightarrow> (Some err, csr, [PubSubNewClient project, TopicExists project topic])
              | Inr found \<Rightarrow>
                  if found
                  then (None, csr, [PubSubNewClient project, TopicExists project topic])
                  else (case onCreateTopic c project topic of
                          Some err \<Rightarrow>
                            (Some err, csr,
                             [PubSubNewClient project, TopicExists project topic,
                              CreateTopic project topic])
                        | None \<Rightarrow>
                            (None, csr,
                             [PubSubNewClient project, TopicExists project topic,
                              CreateTopic project topic]))))"

definition deleteTopic :: "gcs_env \<Rightarrow> string \<Rightarrow> string \<Rightarrow> error option \<times> call list" where
  "deleteTopic c project topic =
     (if topic = '''' then (None, [])
      else case onPubSubNewClient c project of
             Some err \<Rightarrow> (Some err, [PubSubNewClient project])
           | None \<Rightarrow>
               (case onTopicDelete c project topic of
                  None \<Rightarrow> (None, [PubSubNewClient project, TopicDelete project topic])
                | Some err \<Rightarrow>
                    (case FromError err of
                       None \<Rightarrow> (Some err, [PubSubNewClient project, TopicDelete project topic])
                     | Some st \<Rightarrow>
                         if st \<noteq> NotFound
                         then (Some err, [PubSubNewClient project, TopicDelete project topic])
                         else (None, [PubSubNewClient project, TopicDelete project topic]))))"

definition deleteNotification :: "gcs_env \<Rightarrow> GCS \<Rightarrow> error option \<times> call list" where
  "deleteNotification c gcs =
     (if NotificationID (Status gcs) = '''' then (None, [])
      else case onStorageNewClient c of
             Some err \<Rightarrow> (Some err, [StorageNewClient])
           | None \<Rightarrow>
               (let bucket = Bucket (Spec gcs);
                    calls = [StorageNewClient, DeleteNotification bucket (NotificationID (Status gcs))]
                in case onDeleteNotification c bucket (NotificationID (Status gcs)) of
                     None \<Rightarrow> (None, calls)
                   | Some err \<Rightarrow>
                       (case FromError err of
                          None \<Rightarrow> (Some err, calls)
                        | Some st \<Rightarrow> if st \<noteq> NotFound then (Some err, calls) else (None, calls))))"

definition reconcilePubSub :: "gcs_env \<Rightarrow> GCS \<Rightarrow> (error + PullSubscription) \<times> call list" where
  "reconcilePubSub c csr =
     (let namespace = Namespace (ObjectMeta csr); name = Name (ObjectMeta csr)
      in case onPullSubscriptionsGet c namespace name of
           Inr existing \<Rightarrow> (Inr existing, [PullSubscriptionsGet namespace name])
         | Inl err \<Rightarrow>
             if IsNotFound err
             then (let pubsub = MakePullSubscription c csr ''testing''
                   in (onPullSubscriptionsCreate c namespace pubsub,
                       [PullSubscriptionsGet namespace name, PullSubscriptionsCreate namespace pubsub]))
             else (Inl err, [PullSubscriptionsGet namespace name]))"

definition reconcileNotification :: "gcs_env \<Rightarrow> GCS \<Rightarrow> (error + Notification) \<times> GCS \<times> call list" where
  "reconcileNotification c gcs =
     (case onStorageNewClient c of
        Some err \<Rightarrow> (Inl err, gcs, [StorageNewClient])
      | None \<Rightarrow>
          (let bucket = Bucket (Spec gcs)
           in case onBucketNotifications c bucket of
                Inl err \<Rightarrow> (Inl err, gcs, [StorageNewClient, BucketNotifications bucket])
              | Inr notifications \<Rightarrow>
                  (case (if NotificationID (Status gcs) \<noteq> ''''
                         then notifications (NotificationID (Status gcs)) else None) of
                     Some existing \<Rightarrow>
                       (Inr existing, gcs, [StorageNewClient, BucketNotifications bucket])
                   | None \<Rightarrow>
                       (let customAttributes = Map.empty ++ CustomAttributes (Spec gcs);
                            customAttributes = customAttributes(''ce-type'' \<mapsto> ''google.gcs'');
                            n = \<lparr>ID = '''',
                                 TopicProjectID = GoogleCloudProject (Spec gcs),
                                 TopicID = Topic (Status gcs),
                                 PayloadFormat = JSONPayload,
                                 NotificationEventTypes = EventTypes (Spec gcs),
                                 NotificationObjectNamePrefix = ObjectNamePrefix (Spec gcs),
                                 NotificationCustomAttributes = customAttributes\<rparr>
                        in (onAddNotification c bucket n, gcs,
                            [StorageNewClient, BucketNotifications bucket,
                             AddNotification bucket n])))))"

text \<open>
  \<^verbatim>\<open>reconcileGCSSource\<close> works on the copy \<open>csr\<close> and returns its error, the copy as it
  leaves it, and the events of the pass.
\<close>

definition reconcileGCSSource :: "gcs_env \<Rightarrow> GCS \<Rightarrow> error option \<times> GCS \<times> event list" where
  "reconcileGCSSource c csr =
     (let deletionTimestamp = DeletionTimestamp (ObjectMeta csr);
          t0 = stamp csr [GetSinkURI (Sink (Spec csr)) (Namespace (ObjectMeta csr))]
      in case (case onGetSinkURI c (Sink (Spec csr)) (Namespace (ObjectMeta csr)) of
                 Inl err \<Rightarrow> if deletionTimestamp = None then Inl err else Inr ''''
               | Inr uri \<Rightarrow> Inr uri) of
           Inl err \<Rightarrow> (Some err, csr, t0)
         | Inr uri \<Rightarrow>
             if deletionTimestamp \<noteq> None
             then (case deleteNotification c csr of
                     (Some err, t1) \<Rightarrow> (Some err, csr, t0 @ stamp csr t1)
                   | (None, t1) \<Rightarrow>
                       (case deleteTopic c (GoogleCloudProject (Spec csr)) (Topic (Status csr)) of
                          (Some err, t2) \<Rightarrow> (Some err, csr, t0 @ stamp csr t1 @ stamp csr t2)
                        | (None, t2) \<Rightarrow>
                            (let csr' = csr\<lparr>Status := (Status csr)\<lparr>Topic := ''''\<rparr>\<rparr>;
                                 csr' = removeFinalizer c csr'
                             in (None, csr', t0 @ stamp csr t1 @ stamp csr t2))))
             else (let csr1 = csr\<lparr>Status := InitializeConditions (Status csr)\<rparr>
                   in case reconcileTopic c csr1 of
                        (Some err, csr2, t1) \<Rightarrow>
                          (Some err,
                           csr2\<lparr>Status := MarkPubSubTopicNotReady
                                  (''Failed to create GCP PubSub Topic: '' @ Error err) '''' (Status csr2)\<rparr>,
                           t0 @ stamp csr2 t1)
                      | (None, csr2, t1) \<Rightarrow>
                          (let csr3 = csr2\<lparr>Status := MarkPubSubTopicReady (Status csr2)\<rparr>;
                               csr4 = addFinalizer c csr3;
                               csr5 = csr4\<lparr>Status := (Status csr4)\<lparr>SinkURI := uri\<rparr>\<rparr>
                           in case reconcilePubSub c csr5 of
                                (Inl err, t2) \<Rightarrow>
                                  (Some err,
                                   csr5\<lparr>Status := MarkPubSubSourceNotReady
                                          (''Failed to create GCP PubSub Source: '' @ Error err) ''''
                                          (Status csr5)\<rparr>,
                                   t0 @ stamp csr2 t1 @ stamp csr5 t2)
                              | (Inr pubsub, t2) \<Rightarrow>
                                  (let csr6 = (if \<not> PullSubscriptionIsReady pubsub
                                               then csr5\<lparr>Status := MarkPubSubSourceNotReady
                                                      ''underlying GCP PubSub Source is not ready'' ''''
                                                      (Status csr5)\<rparr>
                                               else csr5\<lparr>Status := MarkPubSubSourceReady (Status csr5)\<rparr>)
                                   in case reconcileNotification c csr6 of
                                        (Inl err, csr7, t3) \<Rightarrow>
                                          (Some err,
                                           csr7\<lparr>Status := MarkGCSNotReady
                                                  (''Failed to create GCS notification: '' @ Error err) ''''
                                                  (Status csr7)\<rparr>,
                                           t0 @ stamp csr2 t1 @ stamp csr5 t2 @ stamp csr7 t3)
                                      | (Inr notification, csr7, t3) \<Rightarrow>
                                          (let csr8 = csr7\<lparr>Status := MarkGCSReady (Status csr7)\<rparr>;
                                               csr9 = csr8\<lparr>Status := (Status csr8)
                                                        \<lparr>NotificationID := ID notification\<rparr>\<rparr>
                                           in (None, csr9,
                                               t0 @ stamp csr2 t1 @ stamp csr5 t2 @ stamp csr7 t3))))))"

text \<open>
  \<^verbatim>\<open>updateStatus\<close> reads the resource again from the lister, returns when its status
  equals the desired one, and otherwise sends the lister's copy with the desired status
  to \<^verbatim>\<open>UpdateStatus\<close>. (The readiness computed there only feeds a log line and a
  metric.)
\<close>

definition updateStatus :: "gcs_env \<Rightarrow> GCS \<Rightarrow> (error + GCS) \<times> call list" where
  "updateStatus c desired =
     (case gcsLister c (Namespace (ObjectMeta desired)) (Name (ObjectMeta desired)) of
        Inl err \<Rightarrow> (Inl err, [])
      | Inr source \<Rightarrow>
          if Status source = Status desired then (Inr source, [])
          else (let existing = source\<lparr>Status := Status desired\<rparr>
                in (onGCSsUpdateStatus c existing, [GCSsUpdateStatus existing])))"

text \<open>
  \<^verbatim>\<open>Reconcile\<close> returns its error and the events of the invocation. The deep copy of
  the lister's record is the record itself here, values being immutable, and
  \<^verbatim>\<open>equality.Semantic.DeepEqual\<close> (for which a nil and an empty slice are equal) is
  equality of the modelled values. The lister answers the second read, in
  \<^verbatim>\<open>updateStatus\<close>, as it answered the first.
\<close>

definition Reconcile :: "gcs_env \<Rightarrow> string \<Rightarrow> error option \<times> event list" where
  "Reconcile c key =
     (case onSplitMetaNamespaceKey c key of
        Inl err \<Rightarrow> (None, [])
      | Inr (namespace, name) \<Rightarrow>
          (case gcsLister c namespace name of
             Inl err \<Rightarrow> if IsNotFound err then (None, []) else (Some err, [])
           | Inr original \<Rightarrow>
               (case reconcileGCSSource c original of
                  (err, csr, t1) \<Rightarrow>
                    if Status original = Status csr \<and> ObjectMeta original = ObjectMeta csr
                    then (err, t1)
                    else (case updateStatus c csr of
                            (Inl err', t2) \<Rightarrow> (Some err', t1 @ stamp csr t2)
                          | (Inr u, t2) \<Rightarrow> (err, t1 @ stamp csr t2)))))"

section \<open>The PubSubSource reconciler\<close>

text \<open>
  The surroundings of the PubSubSource reconciler: the metadata server, the Pub/Sub
  client made by \<^verbatim>\<open>pubSubClientCreator\<close>, the Deployments client, the lister, the
  status update and the patch of the finalizers, the image of the receive adapter, and
  three functions of the \<^verbatim>\<open>resources\<close> package that are not among the sources
  (\<^verbatim>\<open>GenerateSubName\<close>, \<^verbatim>\<open>GetLabelSelector\<close> and \<^verbatim>\<open>MakeReceiveAdapter\<close> with the
  labels of \<^verbatim>\<open>GetLabels\<close>).
\<close>

record ReceiveAdapterArgs =
  Image :: string
  Source :: PubSubSource
  Labels :: "string \<rightharpoonup> string"
  SubscriptionID :: string
  ArgsSinkURI :: string
  TransformerURI :: string

record source_env = base_env +
  receiveAdapterImage :: string
  onMetadataProjectID :: "error + string"
  onPubSubClientCreator :: "string \<Rightarrow> error option"
  onSubscriptionExists :: "string \<Rightarrow> string \<Rightarrow> error + bool"
  onCreateSubscription :: "string \<Rightarrow> string \<Rightarrow> string \<Rightarrow> error + string"
  onSubscriptionDelete :: "string \<Rightarrow> string \<Rightarrow> error option"
  onDeploymentsList :: "string \<Rightarrow> string \<Rightarrow> error + Deployment list"
  onDeploymentsCreate :: "string \<Rightarrow> Deployment \<Rightarrow> error + Deployment"
  GenerateSubName :: "PubSubSource \<Rightarrow> string"
  GetLabels :: "string \<Rightarrow> string \<Rightarrow> (string \<rightharpoonup> string)"
  GetLabelSelector :: "string \<Rightarrow> string \<Rightarrow> string"
  MakeReceiveAdapter :: "ReceiveAdapterArgs \<Rightarrow> Deployment"
  sourceLister :: "string \<Rightarrow> string \<Rightarrow> error + PubSubSource"
  onPubSubSourcesUpdateStatus :: "PubSubSource \<Rightarrow> error + PubSubSource"
  onPubSubSourcesPatch :: "string \<Rightarrow> string \<Rightarrow> string list \<Rightarrow> string \<Rightarrow> error + PubSubSource"

definition resolveProjectID :: "source_env \<Rightarrow> PubSubSource \<Rightarrow> error option \<times> PubSubSource \<times> call list" where
  "resolveProjectID c source =
     (if Project (Spec source) \<noteq> ''''
      then (None, source\<lparr>Status := (Status source)\<lparr>ProjectID := Project (Spec source)\<rparr>\<rparr>, [])
      else case onMetadataProjectID c of
             Inr projectID \<Rightarrow>
               (None, source\<lparr>Status := (Status source)\<lparr>ProjectID := projectID\<rparr>\<rparr>, [MetadataProjectID])
           | Inl err \<Rightarrow>
               (Some (ErrorString ''project is required but not set''), source, [MetadataProjectID]))"

definition createSubscription :: "source_env \<Rightarrow> PubSubSource \<Rightarrow> (error + string) \<times> call list" where
  "createSubscription c src =
     (if ProjectID (Status src) = ''''
      then (Inl (ErrorString ''project is required but not set''), [])
      else if SourceTopic (Spec src) = ''''
      then (Inl (ErrorString ''topic is required but not set''), [])
      else (let project = ProjectID (Status src)
            in case onPubSubClientCreator c project of
                 Some err \<Rightarrow> (Inl err, [PubSubClientCreator project])
               | None \<Rightarrow>
                   (let sub = GenerateSubName c src
                    in case onSubscriptionExists c project sub of
                         Inl err \<Rightarrow>
                           (Inl err, [PubSubClientCreator project, SubscriptionExists project sub])
                       | Inr found \<Rightarrow>
                           if found
                           then (Inr sub, [PubSubClientCreator project, SubscriptionExists project sub])
                           else (onCreateSubscription c project sub (SourceTopic (Spec src)),
                                 [PubSubClientCreator project, SubscriptionExists project sub,
                                  CreateSubscription project sub (SourceTopic (Spec src))]))))"

definition deleteSubscription :: "source_env \<Rightarrow> PubSubSource \<Rightarrow> error option \<times> call list" where
  "deleteSubscription c src =
     (if ProjectID (Status src) = ''''
      then (Some (ErrorString ''project is required but not set''), [])
      else (let project = ProjectID (Status src)
            in case onPubSubClientCreator c project of
                 Some err \<Rightarrow> (Some err, [PubSubClientCreator project])
               | None \<Rightarrow>
                   (let sub = GenerateSubName c src
                    in case onSubscriptionExists c project sub of
                         Inl err \<Rightarrow>
                           (Some err, [PubSubClientCreator project, SubscriptionExists project sub])
                       | Inr found \<Rightarrow>
                           if \<not> found
                           then (None, [PubSubClientCreator project, SubscriptionExists project sub])
                           else (onSubscriptionDelete c project sub,
                                 [PubSubClientCreator project, SubscriptionExists project sub,
                                  SubscriptionDelete project sub]))))"

definition getReceiveAdapter :: "source_env \<Rightarrow> PubSubSource \<Rightarrow> (error + Deployment) \<times> call list" where
  "getReceiveAdapter c src =
     (let namespace = Namespace (ObjectMeta src);
          selector = GetLabelSelector c (controllerAgentName c) (Name (ObjectMeta src))
      in case onDeploymentsList c namespace selector of
           Inl err \<Rightarrow> (Inl err, [DeploymentsList namespace selector])
         | Inr items \<Rightarrow>
             (case find (\<lambda>dep. IsControlledBy dep src) items of
                Some dep \<Rightarrow> (Inr dep, [DeploymentsList namespace selector])
              | None \<Rightarrow> (Inl (APIStatusError StatusReasonNotFound ''''),
                         [DeploymentsList namespace selector])))"

definition createReceiveAdapter ::
  "source_env \<Rightarrow> PubSubSource \<Rightarrow> string \<Rightarrow> string \<Rightarrow> string \<Rightarrow> (error + Deployment) \<times> call list" where
  "createReceiveAdapter c src subscriptionID sinkURI transformerURI =
     (case getReceiveAdapter c src of
        (Inr ra, t1) \<Rightarrow> (Inr ra, t1)
      | (Inl err, t1) \<Rightarrow>
          if \<not> IsNotFound err then (Inl err, t1)
          else (let dp = MakeReceiveAdapter c
                           \<lparr>Image = receiveAdapterImage c,
                            Source = src,
                            Labels = GetLabels c (controllerAgentName c) (Name (ObjectMeta src)),
                            SubscriptionID = subscriptionID,
                            ArgsSinkURI = sinkURI,
                            TransformerURI = transformerURI\<rparr>
                in (onDeploymentsCreate c (Namespace (ObjectMeta src)) dp,
                    t1 @ [DeploymentsCreate (Namespace (ObjectMeta src)) dp])))"

text \<open>
  \<^verbatim>\<open>reconcile\<close> of the PubSubSource reconciler. Its \<^verbatim>\<open>addFinalizer\<close> and
  \<^verbatim>\<open>removeFinalizer\<close> have the bodies of the GCS ones, so the same definitions serve.
\<close>

definition reconcile :: "source_env \<Rightarrow> PubSubSource \<Rightarrow> error option \<times> PubSubSource \<times> event list" where
  "reconcile c source0 =
     (let source1 = source0\<lparr>Status := SourceInitializeConditions (Status source0)\<rparr>
      in case resolveProjectID c source1 of
           (Some err, source2, t0) \<Rightarrow> (Some err, source2, stamp source2 t0)
         | (None, source2, t0) \<Rightarrow>
             if DeletionTimestamp (ObjectMeta source2) \<noteq> None
             then (case deleteSubscription c source2 of
                     (Some err, t1) \<Rightarrow> (Some err, source2, stamp source2 (t0 @ t1))
                   | (None, t1) \<Rightarrow> (None, removeFinalizer c source2, stamp source2 (t0 @ t1)))
             else (let namespace = Namespace (ObjectMeta source2);
                       t1 = t0 @ [GetSinkURI (SourceSink (Spec source2)) namespace]
                   in case onGetSinkURI c (SourceSink (Spec source2)) namespace of
                        Inl err \<Rightarrow>
                          (Some err, source2\<lparr>Status := MarkNoSink ''NotFound'' '''' (Status source2)\<rparr>,
                           stamp source2 t1)
                      | Inr sinkURI \<Rightarrow>
                          (let source3 = source2\<lparr>Status := MarkSink sinkURI (Status source2)\<rparr>
                           in case (case Transformer (Spec source3) of
                                      None \<Rightarrow> (Inr '''', source3, t1)
                                    | Some tr \<Rightarrow>
                                        (case onGetSinkURI c tr namespace of
                                           Inl err \<Rightarrow>
                                             (Inl err,
                                              source3\<lparr>Status := MarkNoSink ''NotFound'' '''' (Status source3)\<rparr>,
                                              t1 @ [GetSinkURI tr namespace])
                                         | Inr uri \<Rightarrow>
                                             (Inr uri,
                                              source3\<lparr>Status := MarkSink sinkURI (Status source3)\<rparr>,
                                              t1 @ [GetSinkURI tr namespace]))) of
                                (Inl err, source4, t2) \<Rightarrow> (Some err, source4, stamp source4 t2)
                              | (Inr transformerURI, source4, t2) \<Rightarrow>
                                  (case createSubscription c source4 of
                                     (Inl err, t3) \<Rightarrow> (Some err, source4, stamp source4 (t2 @ t3))
                                   | (Inr sub, t3) \<Rightarrow>
                                       (let source5 = addFinalizer c source4;
                                            source6 = source5\<lparr>Status := MarkSubscribed (Status source5)\<rparr>
                                        in case createReceiveAdapter c source6 sub sinkURI transformerURI of
                                             (Inl err, t4) \<Rightarrow>
                                               (Some err, source6,
                                                stamp source4 (t2 @ t3) @ stamp source6 t4)
                                           | (Inr ra, t4) \<Rightarrow>
                                               (let source7 = source6\<lparr>Status := MarkDeployed (Status source6)\<rparr>;
                                                    source8 = source7\<lparr>Status := (Status source7)
                                                      \<lparr>ObservedGeneration := Generation (ObjectMeta source7)\<rparr>\<rparr>
                                                in (None, source8,
                                                    stamp source4 (t2 @ t3) @ stamp source6 t4)))))))"

text \<open>
  \<^verbatim>\<open>updateStatus\<close> and \<^verbatim>\<open>Reconcile\<close> of the PubSubSource reconciler, named
  \<open>sourceUpdateStatus\<close> and \<open>SourceReconcile\<close> here, the plain names being those of
  the GCS reconciler. The events the recorder is sent are not modelled.
\<close>

definition sourceUpdateStatus :: "source_env \<Rightarrow> PubSubSource \<Rightarrow> (error + PubSubSource) \<times> call list" where
  "sourceUpdateStatus c desired =
     (case sourceLister c (Namespace (ObjectMeta desired)) (Name (ObjectMeta desired)) of
        Inl err \<Rightarrow> (Inl err, [])
      | Inr source \<Rightarrow>
          if Status source = Status desired then (Inr source, [])
          else (let existing = source\<lparr>Status := Status desired\<rparr>
                in (onPubSubSourcesUpdateStatus c existing, [PubSubSourcesUpdateStatus existing])))"

text \<open>
  \<^verbatim>\<open>updateFinalizers\<close> returns its error and whether it sent a patch. (Marshalling the
  patch, a map of strings, does not fail.)
\<close>

definition updateFinalizers :: "source_env \<Rightarrow> PubSubSource \<Rightarrow> error option \<times> bool \<times> call list" where
  "updateFinalizers c desired =
     (case sourceLister c (Namespace (ObjectMeta desired)) (Name (ObjectMeta desired)) of
        Inl err \<Rightarrow> (Some err, False, [])
      | Inr existing \<Rightarrow>
          (let exisitingFinalizers = NewString (Finalizers (ObjectMeta existing));
               desiredFinalizers = NewString (Finalizers (ObjectMeta desired))
           in case (if Has desiredFinalizers (finalizerName c)
                    then (if Has exisitingFinalizers (finalizerName c) then None
                          else Some (Finalizers (ObjectMeta existing) @ [finalizerName c]))
                    else (if \<not> Has exisitingFinalizers (finalizerName c) then None
                          else Some (List (Delete exisitingFinalizers (finalizerName c))))) of
                None \<Rightarrow> (None, False, [])
              | Some finalizers \<Rightarrow>
                  (let namespace = Namespace (ObjectMeta existing);
                       name = Name (ObjectMeta existing);
                       version = ResourceVersion (ObjectMeta existing)
                   in (case onPubSubSourcesPatch c namespace name finalizers version of
                         Inl err \<Rightarrow> Some err
                       | Inr update \<Rightarrow> None,
                       True,
                       [PubSubSourcesPatch namespace name finalizers version]))))"

definition SourceReconcile :: "source_env \<Rightarrow> string \<Rightarrow> error option \<times> event list" where
  "SourceReconcile c key =
     (case onSplitMetaNamespaceKey c key of
        Inl err \<Rightarrow> (None, [])
      | Inr (namespace, name) \<Rightarrow>
          (case sourceLister c namespace name of
             Inl err \<Rightarrow> if IsNotFound err then (None, []) else (Some err, [])
           | Inr original \<Rightarrow>
               (case reconcile c original of
                  (reconcileErr, source, t1) \<Rightarrow>
                    (case (if Finalizers (ObjectMeta original) = Finalizers (ObjectMeta source)
                           then (None, False, [])
                           else updateFinalizers c source) of
                       (Some fErr, updated, t2) \<Rightarrow> (Some fErr, t1 @ stamp source t2)
                     | (None, updated, t2) \<Rightarrow>
                         (case (if Status original = Status source then (Inr source, [])
                                else sourceUpdateStatus c source) of
                            (Inl uErr, t3) \<Rightarrow> (Some uErr, t1 @ stamp source (t2 @ t3))
                          | (Inr u, t3) \<Rightarrow> (reconcileErr, t1 @ stamp source (t2 @ t3)))))))"

section \<open>Properties of the events of a pass\<close>

text \<open>
  The calls that create something outside the record: the first resource of a pass (the
  topic of a GCS source, the subscription of a PubSubSource) and the resources created
  after it (PullSubscription and notification; the Deployment of the receive adapter).
\<close>

fun createsFirstResource :: "call \<Rightarrow> bool" where
  "createsFirstResource (CreateTopic project topic) = True"
| "createsFirstResource (CreateSubscription project sub topic) = True"
| "createsFirstResource x = False"

fun createsLaterResource :: "call \<Rightarrow> bool" where
  "createsLaterResource (PullSubscriptionsCreate namespace p) = True"
| "createsLaterResource (AddNotification bucket n) = True"
| "createsLaterResource (DeploymentsCreate namespace dp) = True"
| "createsLaterResource x = False"

text \<open>
  The in-memory record holds the finalizer \<open>fn\<close> at every call of the pass that creates
  a resource.
\<close>

definition finalizerHeldAtEveryCreate :: "string \<Rightarrow> event list \<Rightarrow> bool" where
  "finalizerHeldAtEveryCreate fn tr =
     list_all (\<lambda>(x, fins). createsFirstResource x \<or> createsLaterResource x \<longrightarrow> fn \<in> set fins) tr"

text \<open>
  The first resource is created while the record still has the finalizers it was loaded
  with, and every later resource is created with the finalizer \<open>fn\<close> on the record.
\<close>

definition finalizerAddedAfterFirstCreate :: "string \<Rightarrow> string list \<Rightarrow> event list \<Rightarrow> bool" where
  "finalizerAddedAfterFirstCreate fn loaded tr =
     list_all (\<lambda>(x, fins). (createsFirstResource x \<longrightarrow> fins = loaded)
                          \<and> (createsLaterResource x \<longrightarrow> fn \<in> set fins)) tr"





text \<open>Some condition of the list is False.\<close>

definition hasFalseCondition :: "Condition list \<Rightarrow> bool" where
  "hasFalseCondition cs = list_ex (\<lambda>c. cstatus c = ConditionFalse) cs"

section \<open>Concrete resources and surroundings\<close>

text \<open>
  A GCS source as it is first created, with spec \<^verbatim>\<open>{bucket: "b", topic: ""}\<close> and an
  empty status, and surroundings in which the sink resolves, no topic, PullSubscription
  or notification exists yet and every call succeeds; the provider names the created
  notification \<^verbatim>\<open>"42"\<close>.
\<close>

definition meta0 :: ObjectMeta where
  "meta0 = \<lparr>Name = ''my-gcs'', Namespace = ''default'', UID = ''uid-1'', ResourceVersion = ''7'',
            Generation = 1, DeletionTimestamp = None, Finalizers = []\<rparr>"

definition gcs0 :: GCS where
  "gcs0 = \<lparr>ObjectMeta = meta0,
           Spec = \<lparr>GoogleCloudProject = ''proj'', Bucket = ''b'',
                   Sink = \<lparr>RefKind = ''Service'', RefName = ''sink''\<rparr>,
                   EventTypes = [''finalize''], ObjectNamePrefix = '''',
                   CustomAttributes = [''ce-type'' \<mapsto> ''user.type'', ''team'' \<mapsto> ''blue'']\<rparr>,
           Status = \<lparr>Conditions = [], Topic = '''', NotificationID = '''', SinkURI = ''''\<rparr>\<rparr>"

definition gcsEnv0 :: gcs_env where
  "gcsEnv0 = \<lparr>controllerAgentName = ''gcs-controller'',
              onSplitMetaNamespaceKey = (\<lambda>key. Inr (''default'', ''my-gcs'')),
              onGetSinkURI = (\<lambda>ref namespace. Inr ''http://sink.default.svc/''),
              onUUIDNew = ''1b4e28ba'',
              onPubSubNewClient = (\<lambda>project. None),
              onTopicExists = (\<lambda>project topic. Inr False),
              onCreateTopic = (\<lambda>project topic. None),
              onTopicDelete = (\<lambda>project topic. None),
              onStorageNewClient = None,
              onBucketNotifications = (\<lambda>bucket. Inr Map.empty),
              onAddNotification = (\<lambda>bucket n. Inr (n\<lparr>ID := ''42''\<rparr>)),
              onDeleteNotification = (\<lambda>bucket i. None),
              onPullSubscriptionsGet =
                (\<lambda>namespace name. Inl (APIStatusError StatusReasonNotFound ''pullsubscription not found'')),
              onPullSubscriptionsCreate = (\<lambda>namespace p. Inr p),
              MakePullSubscription =
                (\<lambda>csr s. \<lparr>PullSubscriptionName = Name (ObjectMeta csr),
                           PullSubscriptionNamespace = Namespace (ObjectMeta csr),
                           PullSubscriptionIsReady = False\<rparr>),
              gcsLister = (\<lambda>namespace name. Inr gcs0),
              onGCSsUpdateStatus = (\<lambda>g. Inr g)\<rparr>"

text \<open>
  The same source later: converged, then marked for deletion while its status holds the
  notification \<^verbatim>\<open>"42"\<close> and the topic, and the controller's finalizer is on it.
\<close>

definition gcsDeleting :: GCS where
  "gcsDeleting =
     gcs0\<lparr>ObjectMeta := meta0\<lparr>DeletionTimestamp := Some 1, Finalizers := [''gcs-controller'']\<rparr>,
          Status := \<lparr>Conditions = [], Topic = ''gcs-1b4e28ba'', NotificationID = ''42'',
                      SinkURI = ''http://sink.default.svc/''\<rparr>\<rparr>"

text \<open>
  A source marked for deletion before anything was created for it: the status holds no
  topic and no notification, and only the finalizer keeps the record.
\<close>

definition gcsDeletingEmpty :: GCS where
  "gcsDeletingEmpty =
     gcs0\<lparr>ObjectMeta := meta0\<lparr>DeletionTimestamp := Some 1, Finalizers := [''gcs-controller'']\<rparr>\<rparr>"

text \<open>A PubSubSource as it is first created, and surroundings in which every call succeeds.\<close>

definition source0 :: PubSubSource where
  "source0 = \<lparr>ObjectMeta = meta0\<lparr>Name := ''my-source''\<rparr>,
              Spec = \<lparr>Project = ''proj'', SourceTopic = ''events'',
                      SourceSink = \<lparr>RefKind = ''Service'', RefName = ''sink''\<rparr>,
                      Transformer = None\<rparr>,
              Status = \<lparr>SourceConditions = [], SourceSinkURI = '''', ProjectID = '''',
                        ObservedGeneration = 0\<rparr>\<rparr>"

definition sourceEnv0 :: source_env where
  "sourceEnv0 = \<lparr>controllerAgentName = ''pubsub-source-controller'',
                 onSplitMetaNamespaceKey = (\<lambda>key. Inr (''default'', ''my-source'')),
                 onGetSinkURI = (\<lambda>ref namespace. Inr ''http://sink.default.svc/''),
                 receiveAdapterImage = ''receive-adapter'',
                 onMetadataProjectID = Inr ''proj'',
                 onPubSubClientCreator = (\<lambda>project. None),
                 onSubscriptionExists = (\<lambda>project sub. Inr False),
                 onCreateSubscription = (\<lambda>project sub topic. Inr sub),
                 onSubscriptionDelete = (\<lambda>project sub. None),
                 onDeploymentsList = (\<lambda>namespace selector. Inr []),
                 onDeploymentsCreate = (\<lambda>namespace dp. Inr dp),
                 GenerateSubName = (\<lambda>src. ''cre-pull-'' @ UID (ObjectMeta src)),
                 GetLabels = (\<lambda>agent name. [''source'' \<mapsto> name]),
                 GetLabelSelector = (\<lambda>agent name. ''source='' @ name),
                 MakeReceiveAdapter =
                   (\<lambda>args. \<lparr>DeploymentName = ''pubsub-'' @ Name (ObjectMeta (Source args)),
                             ControllerUID = Some (UID (ObjectMeta (Source args)))\<rparr>),
                 sourceLister = (\<lambda>namespace name. Inr source0),
                 onPubSubSourcesUpdateStatus = (\<lambda>s. Inr s),
                 onPubSubSourcesPatch =
                   (\<lambda>namespace name finalizers version.
                      Inr (source0\<lparr>ObjectMeta := (ObjectMeta source0)\<lparr>Finalizers := finalizers\<rparr>\<rparr>))\<rparr>"

text \<open>The notification the first pass over \<open>gcs0\<close> asks the provider to add.\<close>

definition notification0 :: Notification where
  "notification0 =
     \<lparr>ID = [], TopicProjectID = ''proj'', TopicID = ''gcs-1b4e28ba'',
      PayloadFormat = ''JSON_API_V1'', NotificationEventTypes = [''finalize''],
      NotificationObjectNamePrefix = [],
      NotificationCustomAttributes = [''ce-type'' \<mapsto> ''google.gcs'', ''team'' \<mapsto> ''blue'']\<rparr>"

text \<open>
  The source after its first pass through \<^verbatim>\<open>reconcileTopic\<close>, and surroundings of a
  second pass: the topic created by the first pass exists now, and the UUID generator
  would draw another value.
\<close>

definition gcs1 :: GCS where
  "gcs1 = gcs0\<lparr>Status := (Status gcs0)\<lparr>Topic := ''gcs-1b4e28ba''\<rparr>\<rparr>"

definition gcsEnv1 :: gcs_env where
  "gcsEnv1 = gcsEnv0\<lparr>onUUIDNew := ''9c5b94b1'',
                     onTopicExists := (\<lambda>project topic. Inr (topic = ''gcs-1b4e28ba''))\<rparr>"

text \<open>
  Surroundings in which the notification is already gone from the bucket. The Cloud
  Storage client (\<^verbatim>\<open>storage.NewClient\<close>) speaks HTTP and JSON: it answers the deletion of
  a missing notification with a \<^verbatim>\<open>googleapi.Error\<close> of code 404, an error that carries
  no gRPC status.
\<close>

definition gcsEnvGone :: gcs_env where
  "gcsEnvGone = gcsEnv0\<lparr>onDeleteNotification :=
                  (\<lambda>bucket i. Some (ErrorString ''googleapi: Error 404: Not Found, notFound''))\<rparr>"


text \<open>
  A PubSubSource marked for deletion, its project resolved and the finalizer on it, and
  surroundings in which its subscription still exists.
\<close>

definition sourceDeleting :: PubSubSource where
  "sourceDeleting =
     source0\<lparr>ObjectMeta := (ObjectMeta source0)
                 \<lparr>DeletionTimestamp := Some 1, Finalizers := [''pubsub-source-controller'']\<rparr>,
             Status := (Status source0)\<lparr>ProjectID := ''proj''\<rparr>\<rparr>"






text \<open>
  Surroundings in which the lister holds the GCS source that is marked for deletion with
  nothing created for it, and surroundings in which the sink of a source does not resolve.
\<close>

definition gcsEnvDeletingEmpty :: gcs_env where
  "gcsEnvDeletingEmpty = gcsEnv0\<lparr>gcsLister := (\<lambda>namespace name. Inr gcsDeletingEmpty)\<rparr>"

definition gcsEnvNoSink :: gcs_env where
  "gcsEnvNoSink = gcsEnv0\<lparr>onGetSinkURI := (\<lambda>ref namespace. Inl (ErrorString ''sink not found''))\<rparr>"

text \<open>
  The PubSubSource counterpart: a source marked for deletion whose status is already
  what a pass computes (conditions initialised, project resolved) and whose subscription
  does not exist, held by the lister.
\<close>

definition sourceDeletingSettled :: PubSubSource where
  "sourceDeletingSettled =
     sourceDeleting\<lparr>Status := (Status sourceDeleting)
        \<lparr>SourceConditions :=
           [\<lparr>ctype = SinkProvided, cstatus = ConditionUnknown, reason = '''', message = ''''\<rparr>,
            \<lparr>ctype = Subscribed, cstatus = ConditionUnknown, reason = '''', message = ''''\<rparr>,
            \<lparr>ctype = Deployed, cstatus = ConditionUnknown, reason = '''', message = ''''\<rparr>]\<rparr>\<rparr>"

definition sourceEnvDeletingSettled :: source_env where
  "sourceEnvDeletingSettled = sourceEnv0\<lparr>sourceLister := (\<lambda>namespace name. Inr sourceDeletingSettled)\<rparr>"

section \<open>Finalizers as sorted, duplicate-free sets\<close>

lemma set_List: "finite s \<Longrightarrow> set (List s) = s"
  unfolding List_def by (rule set_sorted_list_of_set)

lemma distinct_List: "distinct (List s)"
  unfolding List_def by (rule distinct_sorted_list_of_set)

lemma addFinalizer_eq:
  "addFinalizer c r =
     r\<lparr>ObjectMeta := (ObjectMeta r)
         \<lparr>Finalizers := List (insert (finalizerName c) (set (Finalizers (ObjectMeta r))))\<rparr>\<rparr>"
  by (simp only: addFinalizer_def Let_def NewString_def Insert_def)

lemma removeFinalizer_eq:
  "removeFinalizer c r =
     r\<lparr>ObjectMeta := (ObjectMeta r)
         \<lparr>Finalizers := List (set (Finalizers (ObjectMeta r)) - {finalizerName c})\<rparr>\<rparr>"
  by (simp only: removeFinalizer_def Let_def NewString_def Delete_def)

lemma List_insert_code: "List (insert x (set xs)) = sort (remdups (x # xs))"
  unfolding List_def by (metis list.simps(15) sorted_list_of_set_sort_remdups)

lemma List_remove_code: "List (set xs - {x}) = sort (remdups (removeAll x xs))"
  unfolding List_def by (metis set_removeAll sorted_list_of_set_sort_remdups)

text \<open>The two operations as list programs, for evaluation on concrete records.\<close>

lemma addFinalizer_code:
  "addFinalizer c r =
     r\<lparr>ObjectMeta := (ObjectMeta r)
         \<lparr>Finalizers := sort (remdups (finalizerName c # Finalizers (ObjectMeta r)))\<rparr>\<rparr>"
  by (simp only: addFinalizer_eq List_insert_code)

lemma removeFinalizer_code:
  "removeFinalizer c r =
     r\<lparr>ObjectMeta := (ObjectMeta r)
         \<lparr>Finalizers := sort (remdups (removeAll (finalizerName c) (Finalizers (ObjectMeta r))))\<rparr>\<rparr>"
  by (simp only: removeFinalizer_eq List_remove_code)

lemma Finalizers_addFinalizer:
  "set (Finalizers (ObjectMeta (addFinalizer c r))) =
     insert (finalizerName c) (set (Finalizers (ObjectMeta r)))"
  by (simp add: addFinalizer_eq set_List)

lemma Finalizers_removeFinalizer:
  "set (Finalizers (ObjectMeta (removeFinalizer c r))) =
     set (Finalizers (ObjectMeta r)) - {finalizerName c}"
  by (simp add: removeFinalizer_eq set_List)

section \<open>The calls and frames of the steps of the GCS reconciler\<close>

lemma stamp_simps [simp]:
  "stamp r [] = []"
  "stamp r (x # xs) = (x, Finalizers (ObjectMeta r)) # stamp r xs"
  "stamp r (xs @ ys) = stamp r xs @ stamp r ys"
  by (simp_all add: stamp_def)

lemma stamp_Status_update [simp]: "stamp (r\<lparr>Status := s\<rparr>) t = stamp r t"
  by (simp add: stamp_def)

lemma in_stamp: "(x, fins) \<in> set (stamp r cs) \<longleftrightarrow> x \<in> set cs \<and> fins = Finalizers (ObjectMeta r)"
  by (auto simp: stamp_def)

lemma reconcileTopic_calls:
  assumes "reconcileTopic c csr = (err, csr', cs)" and "x \<in> set cs"
  shows "x = PubSubNewClient (GoogleCloudProject (Spec csr))
         \<or> x = TopicExists (GoogleCloudProject (Spec csr)) (Topic (Status csr'))
         \<or> x = CreateTopic (GoogleCloudProject (Spec csr)) (Topic (Status csr'))"
  using assms
  by (auto simp: reconcileTopic_def Let_def split: option.splits sum.splits if_splits)

lemma reconcileTopic_frame:
  assumes "reconcileTopic c csr = (err, csr', cs)"
  shows "Spec csr' = Spec csr" and "ObjectMeta csr' = ObjectMeta csr"
    and "Status csr' = (Status csr)\<lparr>Topic := Topic (Status csr')\<rparr>"
  using assms
  by (auto simp: reconcileTopic_def Let_def split: option.splits sum.splits if_splits)

lemma reconcilePubSub_calls:
  assumes "reconcilePubSub c csr = (r, cs)" and "x \<in> set cs"
  shows "x = PullSubscriptionsGet (Namespace (ObjectMeta csr)) (Name (ObjectMeta csr))
         \<or> x = PullSubscriptionsCreate (Namespace (ObjectMeta csr)) (MakePullSubscription c csr ''testing'')"
  using assms
  by (auto simp: reconcilePubSub_def Let_def split: option.splits sum.splits if_splits)

lemma reconcileNotification_frame:
  assumes "reconcileNotification c gcs = (r, gcs', cs)"
  shows "gcs' = gcs"
  using assms
  by (auto simp: reconcileNotification_def Let_def split: option.splits sum.splits if_splits)

lemma reconcileNotification_calls:
  assumes "reconcileNotification c gcs = (r, gcs', cs)" and "x \<in> set cs"
  shows "x = StorageNewClient \<or> x = BucketNotifications (Bucket (Spec gcs))
         \<or> x = AddNotification (Bucket (Spec gcs))
                \<lparr>ID = '''',
                 TopicProjectID = GoogleCloudProject (Spec gcs),
                 TopicID = Topic (Status gcs),
                 PayloadFormat = JSONPayload,
                 NotificationEventTypes = EventTypes (Spec gcs),
                 NotificationObjectNamePrefix = ObjectNamePrefix (Spec gcs),
                 NotificationCustomAttributes = (CustomAttributes (Spec gcs))(''ce-type'' \<mapsto> ''google.gcs'')\<rparr>"
  using assms
  by (auto simp: reconcileNotification_def Let_def split: option.splits sum.splits if_splits)

lemma deleteTopic_calls:
  assumes "deleteTopic c project topic = (err, cs)" and "x \<in> set cs"
  shows "x = PubSubNewClient project \<or> x = TopicDelete project topic"
  using assms
  by (auto simp: deleteTopic_def Let_def split: option.splits sum.splits if_splits)

lemma deleteNotification_calls:
  assumes "deleteNotification c gcs = (err, cs)" and "x \<in> set cs"
  shows "x = StorageNewClient \<or> x = DeleteNotification (Bucket (Spec gcs)) (NotificationID (Status gcs))"
  using assms
  by (auto simp: deleteNotification_def Let_def split: option.splits sum.splits if_splits)

lemma reconcileGCSSource_Spec:
  assumes "reconcileGCSSource c csr = (err, csr', tr)"
  shows "Spec csr' = Spec csr"
  using assms
  by (auto simp: reconcileGCSSource_def Let_def addFinalizer_eq removeFinalizer_eq
           split: option.splits sum.splits if_splits prod.splits
           dest!: reconcileTopic_frame(1) reconcileNotification_frame)

text \<open>The events of a pass over a resource that is being deleted.\<close>

lemma reconcileGCSSource_deleting_events:
  assumes "reconcileGCSSource c csr = (err, csr', tr)"
    and "DeletionTimestamp (ObjectMeta csr) \<noteq> None"
    and "(x, fins) \<in> set tr"
  shows "fins = Finalizers (ObjectMeta csr) \<and>
         (x = GetSinkURI (Sink (Spec csr)) (Namespace (ObjectMeta csr))
          \<or> x = StorageNewClient
          \<or> x = DeleteNotification (Bucket (Spec csr)) (NotificationID (Status csr))
          \<or> x = PubSubNewClient (GoogleCloudProject (Spec csr))
          \<or> x = TopicDelete (GoogleCloudProject (Spec csr)) (Topic (Status csr)))"
  using assms
  by (auto simp: reconcileGCSSource_def Let_def in_stamp
           split: option.splits sum.splits if_splits prod.splits
           dest: deleteTopic_calls deleteNotification_calls)



lemma reconcileGCSSource_live_cases:
  assumes run: "reconcileGCSSource c csr = (err, csr', tr)"
    and live: "DeletionTimestamp (ObjectMeta csr) = None"
  obtains
    (sink_fails) e where
      "onGetSinkURI c (Sink (Spec csr)) (Namespace (ObjectMeta csr)) = Inl e"
      "err = Some e" "csr' = csr"
      "tr = stamp csr [GetSinkURI (Sink (Spec csr)) (Namespace (ObjectMeta csr))]"
  | (topic_fails) uri e csr2 t1 where
      "onGetSinkURI c (Sink (Spec csr)) (Namespace (ObjectMeta csr)) = Inr uri"
      "reconcileTopic c (csr\<lparr>Status := InitializeConditions (Status csr)\<rparr>) = (Some e, csr2, t1)"
      "err = Some e"
      "csr' = csr2\<lparr>Status := MarkPubSubTopicNotReady
                (''Failed to create GCP PubSub Topic: '' @ Error e) [] (Status csr2)\<rparr>"
      "tr = stamp csr (GetSinkURI (Sink (Spec csr)) (Namespace (ObjectMeta csr)) # t1)"
  | (pubsub_fails) uri csr2 t1 csr5 e t2 where
      "onGetSinkURI c (Sink (Spec csr)) (Namespace (ObjectMeta csr)) = Inr uri"
      "reconcileTopic c (csr\<lparr>Status := InitializeConditions (Status csr)\<rparr>) = (None, csr2, t1)"
      "csr5 = addFinalizer c (csr2\<lparr>Status := (MarkPubSubTopicReady (Status csr2))\<lparr>SinkURI := uri\<rparr>\<rparr>)"
      "reconcilePubSub c csr5 = (Inl e, t2)"
      "err = Some e"
      "csr' = csr5\<lparr>Status := MarkPubSubSourceNotReady
                (''Failed to create GCP PubSub Source: '' @ Error e) [] (Status csr5)\<rparr>"
      "tr = stamp csr (GetSinkURI (Sink (Spec csr)) (Namespace (ObjectMeta csr)) # t1) @ stamp csr5 t2"
  | (notification_fails) uri csr2 t1 csr5 pubsub t2 csr6 e t3 where
      "onGetSinkURI c (Sink (Spec csr)) (Namespace (ObjectMeta csr)) = Inr uri"
      "reconcileTopic c (csr\<lparr>Status := InitializeConditions (Status csr)\<rparr>) = (None, csr2, t1)"
      "csr5 = addFinalizer c (csr2\<lparr>Status := (MarkPubSubTopicReady (Status csr2))\<lparr>SinkURI := uri\<rparr>\<rparr>)"
      "reconcilePubSub c csr5 = (Inr pubsub, t2)"
      "csr6 = csr5\<lparr>Status := (if \<not> PullSubscriptionIsReady pubsub
                then MarkPubSubSourceNotReady ''underlying GCP PubSub Source is not ready'' [] (Status csr5)
                else MarkPubSubSourceReady (Status csr5))\<rparr>"
      "reconcileNotification c csr6 = (Inl e, csr6, t3)"
      "err = Some e"
      "csr' = csr6\<lparr>Status := MarkGCSNotReady
                (''Failed to create GCS notification: '' @ Error e) [] (Status csr6)\<rparr>"
      "tr = stamp csr (GetSinkURI (Sink (Spec csr)) (Namespace (ObjectMeta csr)) # t1)
            @ stamp csr5 (t2 @ t3)"
  | (converged) uri csr2 t1 csr5 pubsub t2 csr6 notification t3 where
      "onGetSinkURI c (Sink (Spec csr)) (Namespace (ObjectMeta csr)) = Inr uri"
      "reconcileTopic c (csr\<lparr>Status := InitializeConditions (Status csr)\<rparr>) = (None, csr2, t1)"
      "csr5 = addFinalizer c (csr2\<lparr>Status := (MarkPubSubTopicReady (Status csr2))\<lparr>SinkURI := uri\<rparr>\<rparr>)"
      "reconcilePubSub c csr5 = (Inr pubsub, t2)"
      "csr6 = csr5\<lparr>Status := (if \<not> PullSubscriptionIsReady pubsub
                then MarkPubSubSourceNotReady ''underlying GCP PubSub Source is not ready'' [] (Status csr5)
                else MarkPubSubSourceReady (Status csr5))\<rparr>"
      "reconcileNotification c csr6 = (Inr notification, csr6, t3)"
      "err = None"
      "csr' = csr6\<lparr>Status := (MarkGCSReady (Status csr6))\<lparr>NotificationID := ID notification\<rparr>\<rparr>"
      "tr = stamp csr (GetSinkURI (Sink (Spec csr)) (Namespace (ObjectMeta csr)) # t1)
            @ stamp csr5 (t2 @ t3)"
proof (cases "onGetSinkURI c (Sink (Spec csr)) (Namespace (ObjectMeta csr))")
  case (Inl e)
  have "reconcileGCSSource c csr =
          (Some e, csr, stamp csr [GetSinkURI (Sink (Spec csr)) (Namespace (ObjectMeta csr))])"
    using live Inl by (simp add: reconcileGCSSource_def)
  with run have "err = Some e" "csr' = csr"
    "tr = stamp csr [GetSinkURI (Sink (Spec csr)) (Namespace (ObjectMeta csr))]"
    by auto
  with Inl show ?thesis by (rule sink_fails)
next
  case (Inr uri)
  note sink = Inr
  obtain e1 csr2 t1 where topic:
    "reconcileTopic c (csr\<lparr>Status := InitializeConditions (Status csr)\<rparr>) = (e1, csr2, t1)"
    by (cases "reconcileTopic c (csr\<lparr>Status := InitializeConditions (Status csr)\<rparr>)") auto
  have meta2: "ObjectMeta csr2 = ObjectMeta csr"
    using reconcileTopic_frame(2)[OF topic] by simp
  have stamp2: "\<And>t. stamp csr2 t = stamp csr t"
    by (simp add: stamp_def meta2)
  show ?thesis
  proof (cases e1)
    case (Some e)
    have "reconcileGCSSource c csr =
            (Some e,
             csr2\<lparr>Status := MarkPubSubTopicNotReady
                (''Failed to create GCP PubSub Topic: '' @ Error e) [] (Status csr2)\<rparr>,
             stamp csr (GetSinkURI (Sink (Spec csr)) (Namespace (ObjectMeta csr)) # t1))"
      using live sink topic Some by (simp add: reconcileGCSSource_def stamp2)
    with run have "err = Some e"
      "csr' = csr2\<lparr>Status := MarkPubSubTopicNotReady
                (''Failed to create GCP PubSub Topic: '' @ Error e) [] (Status csr2)\<rparr>"
      "tr = stamp csr (GetSinkURI (Sink (Spec csr)) (Namespace (ObjectMeta csr)) # t1)"
      by auto
    with sink topic[unfolded Some] show ?thesis by (rule topic_fails)
  next
    case None
    note topic_ok = topic[unfolded None]
    define csr5 where
      "csr5 = addFinalizer c (csr2\<lparr>Status := (MarkPubSubTopicReady (Status csr2))\<lparr>SinkURI := uri\<rparr>\<rparr>)"
    have csr5_alt: "(addFinalizer c (csr2\<lparr>Status := MarkPubSubTopicReady (Status csr2)\<rparr>))
          \<lparr>Status := (Status (addFinalizer c (csr2\<lparr>Status := MarkPubSubTopicReady (Status csr2)\<rparr>)))
                \<lparr>SinkURI := uri\<rparr>\<rparr> = csr5"
      by (simp add: csr5_def addFinalizer_eq)
    obtain r2 t2 where pubsub: "reconcilePubSub c csr5 = (r2, t2)"
      by (cases "reconcilePubSub c csr5") auto
    show ?thesis
    proof (cases r2)
      case (Inl e)
      have "reconcileGCSSource c csr =
              (Some e,
               csr5\<lparr>Status := MarkPubSubSourceNotReady
                  (''Failed to create GCP PubSub Source: '' @ Error e) [] (Status csr5)\<rparr>,
               stamp csr (GetSinkURI (Sink (Spec csr)) (Namespace (ObjectMeta csr)) # t1) @ stamp csr5 t2)"
        using live sink topic_ok pubsub Inl
        by (simp add: reconcileGCSSource_def Let_def stamp2 csr5_alt)
      with run have "err = Some e"
        "csr' = csr5\<lparr>Status := MarkPubSubSourceNotReady
                  (''Failed to create GCP PubSub Source: '' @ Error e) [] (Status csr5)\<rparr>"
        "tr = stamp csr (GetSinkURI (Sink (Spec csr)) (Namespace (ObjectMeta csr)) # t1) @ stamp csr5 t2"
        by auto
      with sink topic_ok csr5_def pubsub[unfolded Inl] show ?thesis by (rule pubsub_fails)
    next
      case (Inr pubsub')
      note pubsub_ok = pubsub[unfolded Inr]
      define csr6 where
        "csr6 = csr5\<lparr>Status := (if \<not> PullSubscriptionIsReady pubsub'
                then MarkPubSubSourceNotReady ''underlying GCP PubSub Source is not ready'' [] (Status csr5)
                else MarkPubSubSourceReady (Status csr5))\<rparr>"
      obtain r3 csr7 t3 where notif: "reconcileNotification c csr6 = (r3, csr7, t3)"
        by (cases "reconcileNotification c csr6") auto
      have csr7: "csr7 = csr6" using reconcileNotification_frame[OF notif] .
      show ?thesis
      proof (cases r3)
        case (Inl e)
        have "reconcileGCSSource c csr =
                (Some e,
                 csr6\<lparr>Status := MarkGCSNotReady
                    (''Failed to create GCS notification: '' @ Error e) [] (Status csr6)\<rparr>,
                 stamp csr (GetSinkURI (Sink (Spec csr)) (Namespace (ObjectMeta csr)) # t1)
                 @ stamp csr5 (t2 @ t3))"
          using live sink topic_ok pubsub_ok notif Inl csr7
          by (cases "PullSubscriptionIsReady pubsub'")
             (simp_all add: reconcileGCSSource_def Let_def stamp2 csr5_alt csr6_def)
        with run have "err = Some e"
          "csr' = csr6\<lparr>Status := MarkGCSNotReady
                    (''Failed to create GCS notification: '' @ Error e) [] (Status csr6)\<rparr>"
          "tr = stamp csr (GetSinkURI (Sink (Spec csr)) (Namespace (ObjectMeta csr)) # t1)
                 @ stamp csr5 (t2 @ t3)"
          by auto
        with sink topic_ok csr5_def pubsub_ok csr6_def notif[unfolded Inl csr7]
        show ?thesis by (rule notification_fails)
      next
        case (Inr notification)
        have "reconcileGCSSource c csr =
                (None,
                 csr6\<lparr>Status := (MarkGCSReady (Status csr6))\<lparr>NotificationID := ID notification\<rparr>\<rparr>,
                 stamp csr (GetSinkURI (Sink (Spec csr)) (Namespace (ObjectMeta csr)) # t1)
                 @ stamp csr5 (t2 @ t3))"
          using live sink topic_ok pubsub_ok notif Inr csr7
          by (cases "PullSubscriptionIsReady pubsub'")
             (simp_all add: reconcileGCSSource_def Let_def stamp2 csr5_alt csr6_def)
        with run have "err = None"
          "csr' = csr6\<lparr>Status := (MarkGCSReady (Status csr6))\<lparr>NotificationID := ID notification\<rparr>\<rparr>"
          "tr = stamp csr (GetSinkURI (Sink (Spec csr)) (Namespace (ObjectMeta csr)) # t1)
                 @ stamp csr5 (t2 @ t3)"
          by auto
        with sink topic_ok csr5_def pubsub_ok csr6_def notif[unfolded Inr csr7]
        show ?thesis by (rule converged)
      qed
    qed
  qed
qed

section \<open>Evaluation on the concrete resources\<close>

lemma gcsEnv0_simps [simp]:
  "controllerAgentName gcsEnv0 = ''gcs-controller''"
  "onSplitMetaNamespaceKey gcsEnv0 = (\<lambda>key. Inr (''default'', ''my-gcs''))"
  "onGetSinkURI gcsEnv0 = (\<lambda>ref namespace. Inr ''http://sink.default.svc/'')"
  "onUUIDNew gcsEnv0 = ''1b4e28ba''"
  "onPubSubNewClient gcsEnv0 = (\<lambda>project. None)"
  "onTopicExists gcsEnv0 = (\<lambda>project topic. Inr False)"
  "onCreateTopic gcsEnv0 = (\<lambda>project topic. None)"
  "onTopicDelete gcsEnv0 = (\<lambda>project topic. None)"
  "onStorageNewClient gcsEnv0 = None"
  "onBucketNotifications gcsEnv0 = (\<lambda>bucket. Inr Map.empty)"
  "onAddNotification gcsEnv0 = (\<lambda>bucket n. Inr (n\<lparr>ID := ''42''\<rparr>))"
  "onDeleteNotification gcsEnv0 = (\<lambda>bucket i. None)"
  "onPullSubscriptionsGet gcsEnv0 =
     (\<lambda>namespace name. Inl (APIStatusError StatusReasonNotFound ''pullsubscription not found''))"
  "onPullSubscriptionsCreate gcsEnv0 = (\<lambda>namespace p. Inr p)"
  "gcsLister gcsEnv0 = (\<lambda>namespace name. Inr gcs0)"
  "onGCSsUpdateStatus gcsEnv0 = (\<lambda>g. Inr g)"
  by (simp_all add: gcsEnv0_def)

lemma gcsEnv0_MakePullSubscription [simp]:
  "MakePullSubscription gcsEnv0 csr s =
     \<lparr>PullSubscriptionName = Name (ObjectMeta csr),
      PullSubscriptionNamespace = Namespace (ObjectMeta csr),
      PullSubscriptionIsReady = False\<rparr>"
  by (simp add: gcsEnv0_def)

lemmas eval_defs =
  reconcileGCSSource_def reconcileTopic_def reconcilePubSub_def reconcileNotification_def
  deleteTopic_def deleteNotification_def Let_def addFinalizer_code removeFinalizer_code
  finalizerName_def InitializeConditions_def MarkPubSubTopicReady_def MarkPubSubTopicNotReady_def
  MarkPubSubSourceReady_def MarkPubSubSourceNotReady_def MarkGCSReady_def MarkGCSNotReady_def
  markTrue_def markFalse_def gcsConditionTypes_def JSONPayload_def

lemma gcs0_first_pass:
  "reconcileGCSSource gcsEnv0 gcs0 =
     (None,
      gcs0\<lparr>ObjectMeta := meta0\<lparr>Finalizers := [''gcs-controller'']\<rparr>,
           Status := \<lparr>Conditions =
                        [\<lparr>ctype = PubSubTopicReady, cstatus = ConditionTrue, reason = '''', message = ''''\<rparr>,
                         \<lparr>ctype = PubSubSourceReady, cstatus = ConditionFalse,
                          reason = ''underlying GCP PubSub Source is not ready'', message = ''''\<rparr>,
                         \<lparr>ctype = GCSReady, cstatus = ConditionTrue, reason = '''', message = ''''\<rparr>],
                      Topic = ''gcs-1b4e28ba'', NotificationID = ''42'',
                      SinkURI = ''http://sink.default.svc/''\<rparr>\<rparr>,
      [(GetSinkURI \<lparr>RefKind = ''Service'', RefName = ''sink''\<rparr> ''default'', []),
       (PubSubNewClient ''proj'', []),
       (TopicExists ''proj'' ''gcs-1b4e28ba'', []),
       (CreateTopic ''proj'' ''gcs-1b4e28ba'', []),
       (PullSubscriptionsGet ''default'' ''my-gcs'', [''gcs-controller'']),
       (PullSubscriptionsCreate ''default''
          \<lparr>PullSubscriptionName = ''my-gcs'', PullSubscriptionNamespace = ''default'',
           PullSubscriptionIsReady = False\<rparr>, [''gcs-controller'']),
       (StorageNewClient, [''gcs-controller'']),
       (BucketNotifications ''b'', [''gcs-controller'']),
       (AddNotification ''b''
          \<lparr>ID = '''', TopicProjectID = ''proj'', TopicID = ''gcs-1b4e28ba'',
           PayloadFormat = ''JSON_API_V1'', NotificationEventTypes = [''finalize''],
           NotificationObjectNamePrefix = '''',
           NotificationCustomAttributes =
             (CustomAttributes (Spec gcs0))(''ce-type'' \<mapsto> ''google.gcs'')\<rparr>,
        [''gcs-controller''])])"
  by (simp add: eval_defs gcs0_def meta0_def)

lemma gcs0_attributes:
  "(CustomAttributes (Spec gcs0))(''ce-type'' \<mapsto> ''google.gcs'') =
     [''ce-type'' \<mapsto> ''google.gcs'', ''team'' \<mapsto> ''blue'']"
  by (rule ext) (simp add: gcs0_def)

lemma gcs1_is_first_pass:
  "reconcileTopic gcsEnv0 gcs0 =
     (None, gcs1, [PubSubNewClient ''proj'', TopicExists ''proj'' ''gcs-1b4e28ba'',
                   CreateTopic ''proj'' ''gcs-1b4e28ba''])"
  by (simp add: reconcileTopic_def Let_def gcs0_def gcs1_def)

section \<open>The calls and frames of the steps of the PubSubSource reconciler\<close>

lemma stamp_cong: "ObjectMeta r = ObjectMeta r' \<Longrightarrow> stamp r t = stamp r' t"
  by (simp add: stamp_def)

lemma resolveProjectID_frame:
  assumes "resolveProjectID c source = (err, source', cs)"
  shows "Spec source' = Spec source" and "ObjectMeta source' = ObjectMeta source"
    and "SourceConditions (Status source') = SourceConditions (Status source)"
    and "set cs \<subseteq> {MetadataProjectID}"
  using assms
  by (auto simp: resolveProjectID_def split: if_splits sum.splits)

lemma createSubscription_calls:
  assumes "createSubscription c src = (r, cs)" and "x \<in> set cs"
  shows "x = PubSubClientCreator (ProjectID (Status src))
         \<or> x = SubscriptionExists (ProjectID (Status src)) (GenerateSubName c src)
         \<or> (x = CreateSubscription (ProjectID (Status src)) (GenerateSubName c src) (SourceTopic (Spec src))
             \<and> (case r of Inl e \<Rightarrow> Some e | Inr s \<Rightarrow> None) =
                 (case onCreateSubscription c (ProjectID (Status src)) (GenerateSubName c src)
                         (SourceTopic (Spec src)) of Inl e \<Rightarrow> Some e | Inr s \<Rightarrow> None))"
  using assms
  by (auto simp: createSubscription_def Let_def split: option.splits sum.splits if_splits)


lemma createReceiveAdapter_calls:
  assumes "createReceiveAdapter c src sub sinkURI transformerURI = (r, cs)" and "x \<in> set cs"
  shows "(\<exists>sel. x = DeploymentsList (Namespace (ObjectMeta src)) sel)
         \<or> (\<exists>dp. x = DeploymentsCreate (Namespace (ObjectMeta src)) dp
               \<and> r = onDeploymentsCreate c (Namespace (ObjectMeta src)) dp)"
  using assms
  by (auto simp: createReceiveAdapter_def getReceiveAdapter_def Let_def
           split: option.splits sum.splits if_splits prod.splits)

text \<open>
  The outcomes of a pass of \<^verbatim>\<open>reconcile\<close> over a PubSubSource that is not being deleted.
\<close>

lemma reconcile_live_cases:
  assumes run: "reconcile c source = (err, source', tr)"
    and live: "DeletionTimestamp (ObjectMeta source) = None"
  obtains
    (before_subscription) e t where
      "err = Some e" "ObjectMeta source' = ObjectMeta source" "Spec source' = Spec source"
      "tr = stamp source t"
      "\<forall>x \<in> set t. x = MetadataProjectID \<or> (\<exists>r. x = GetSinkURI r (Namespace (ObjectMeta source)))"
  | (subscription_fails) source4 t2 e t3 where
      "ObjectMeta source4 = ObjectMeta source" "Spec source4 = Spec source"
      "\<forall>x \<in> set t2. x = MetadataProjectID \<or> (\<exists>r. x = GetSinkURI r (Namespace (ObjectMeta source)))"
      "createSubscription c source4 = (Inl e, t3)"
      "err = Some e" "source' = source4"
      "tr = stamp source (t2 @ t3)"
  | (adapter_fails) source4 t2 sub t3 source6 sinkURI transformerURI e t4 where
      "ObjectMeta source4 = ObjectMeta source" "Spec source4 = Spec source"
      "\<forall>x \<in> set t2. x = MetadataProjectID \<or> (\<exists>r. x = GetSinkURI r (Namespace (ObjectMeta source)))"
      "createSubscription c source4 = (Inr sub, t3)"
      "source6 = addFinalizer c (source4\<lparr>Status := MarkSubscribed (Status source4)\<rparr>)"
      "createReceiveAdapter c source6 sub sinkURI transformerURI = (Inl e, t4)"
      "err = Some e" "source' = source6"
      "tr = stamp source (t2 @ t3) @ stamp source6 t4"
  | (converged) source4 t2 sub t3 source6 sinkURI transformerURI ra t4 where
      "ObjectMeta source4 = ObjectMeta source" "Spec source4 = Spec source"
      "\<forall>x \<in> set t2. x = MetadataProjectID \<or> (\<exists>r. x = GetSinkURI r (Namespace (ObjectMeta source)))"
      "createSubscription c source4 = (Inr sub, t3)"
      "source6 = addFinalizer c (source4\<lparr>Status := MarkSubscribed (Status source4)\<rparr>)"
      "createReceiveAdapter c source6 sub sinkURI transformerURI = (Inr ra, t4)"
      "err = None"
      "source' = source6\<lparr>Status := (MarkDeployed (Status source6))
                   \<lparr>ObservedGeneration := Generation (ObjectMeta source6)\<rparr>\<rparr>"
      "tr = stamp source (t2 @ t3) @ stamp source6 t4"
proof -
  let ?ns = "Namespace (ObjectMeta source)"
  obtain e0 source2 t0 where project:
    "resolveProjectID c (source\<lparr>Status := SourceInitializeConditions (Status source)\<rparr>) = (e0, source2, t0)"
    by (cases "resolveProjectID c (source\<lparr>Status := SourceInitializeConditions (Status source)\<rparr>)") auto
  have meta2: "ObjectMeta source2 = ObjectMeta source" and spec2: "Spec source2 = Spec source"
    and t0: "set t0 \<subseteq> {MetadataProjectID}"
    using resolveProjectID_frame[OF project] by simp_all
  have stamp2: "\<And>t. stamp source2 t = stamp source t"
    by (rule stamp_cong) (rule meta2)
  have live2: "DeletionTimestamp (ObjectMeta source2) = None"
    using live meta2 by simp
  have rest: thesis
    if pre: "reconcile c source =
               (case createSubscription c source4 of
                  (Inl err, t3) \<Rightarrow> (Some err, source4, stamp source4 (t2 @ t3))
                | (Inr sub, t3) \<Rightarrow>
                    (let source5 = addFinalizer c source4;
                         source6 = source5\<lparr>Status := MarkSubscribed (Status source5)\<rparr>
                     in case createReceiveAdapter c source6 sub sinkURI transformerURI of
                          (Inl err, t4) \<Rightarrow>
                            (Some err, source6, stamp source4 (t2 @ t3) @ stamp source6 t4)
                        | (Inr ra, t4) \<Rightarrow>
                            (let source7 = source6\<lparr>Status := MarkDeployed (Status source6)\<rparr>;
                                 source8 = source7\<lparr>Status := (Status source7)
                                   \<lparr>ObservedGeneration := Generation (ObjectMeta source7)\<rparr>\<rparr>
                             in (None, source8, stamp source4 (t2 @ t3) @ stamp source6 t4))))"
      and meta4: "ObjectMeta source4 = ObjectMeta source" and spec4: "Spec source4 = Spec source"
      and t2: "\<forall>x \<in> set t2. x = MetadataProjectID \<or> (\<exists>r. x = GetSinkURI r ?ns)"
    for source4 t2 sinkURI transformerURI
  proof -
    have stamp4: "\<And>t. stamp source4 t = stamp source t"
      by (rule stamp_cong) (rule meta4)
    obtain r3 t3 where sub: "createSubscription c source4 = (r3, t3)"
      by (cases "createSubscription c source4") auto
    show thesis
    proof (cases r3)
      case (Inl e)
      from run pre sub Inl have "err = Some e" "source' = source4" "tr = stamp source (t2 @ t3)"
        by (auto simp: stamp4)
      with meta4 spec4 t2 sub[unfolded Inl] show thesis by (intro subscription_fails)
    next
      case (Inr sub')
      note sub_ok = sub[unfolded Inr]
      define source6 where "source6 = addFinalizer c (source4\<lparr>Status := MarkSubscribed (Status source4)\<rparr>)"
      have source6_alt: "(addFinalizer c source4)\<lparr>Status := MarkSubscribed (Status (addFinalizer c source4))\<rparr> = source6"
        by (simp add: source6_def addFinalizer_eq)
      obtain r4 t4 where ra: "createReceiveAdapter c source6 sub' sinkURI transformerURI = (r4, t4)"
        by (cases "createReceiveAdapter c source6 sub' sinkURI transformerURI") auto
      show thesis
      proof (cases r4)
        case (Inl e)
        from run pre sub_ok ra Inl have "err = Some e" "source' = source6"
          "tr = stamp source (t2 @ t3) @ stamp source6 t4"
          by (auto simp: Let_def stamp4 source6_alt)
        with meta4 spec4 t2 sub_ok source6_def ra[unfolded Inl] show thesis
          by (intro adapter_fails)
      next
        case (Inr ra')
        from run pre sub_ok ra Inr have "err = None"
          "source' = source6\<lparr>Status := (MarkDeployed (Status source6))
                   \<lparr>ObservedGeneration := Generation (ObjectMeta source6)\<rparr>\<rparr>"
          "tr = stamp source (t2 @ t3) @ stamp source6 t4"
          by (auto simp: Let_def stamp4 source6_alt)
        with meta4 spec4 t2 sub_ok source6_def ra[unfolded Inr] show thesis
          by (intro converged)
      qed
    qed
  qed
  show thesis
  proof (cases e0)
    case (Some e)
    from run project Some have "err = Some e" "source' = source2" "tr = stamp source t0"
      by (auto simp: reconcile_def Let_def stamp2)
    with meta2 spec2 t0 show thesis
      by (intro before_subscription[of e t0]) auto
  next
    case None
    note project_ok = project[unfolded None]
    show thesis
    proof (cases "onGetSinkURI c (SourceSink (Spec source)) ?ns")
      case (Inl e)
      from run project_ok live2 Inl have "err = Some e"
        "source' = source2\<lparr>Status := MarkNoSink ''NotFound'' '''' (Status source2)\<rparr>"
        "tr = stamp source (t0 @ [GetSinkURI (SourceSink (Spec source)) ?ns])"
        by (auto simp: reconcile_def Let_def stamp2 meta2 spec2)
      with meta2 spec2 t0 show thesis
        by (intro before_subscription[of e "t0 @ [GetSinkURI (SourceSink (Spec source)) ?ns]"]) auto
    next
      case (Inr sinkURI)
      note sink = Inr
      define source3 where "source3 = source2\<lparr>Status := MarkSink sinkURI (Status source2)\<rparr>"
      have meta3: "ObjectMeta source3 = ObjectMeta source" and spec3: "Spec source3 = Spec source"
        by (simp_all add: source3_def meta2 spec2)
      show thesis
      proof (cases "Transformer (Spec source)")
        case None
        have "reconcile c source =
               (case createSubscription c source3 of
                  (Inl err, t3) \<Rightarrow> (Some err, source3, stamp source3 ((t0 @ [GetSinkURI (SourceSink (Spec source)) ?ns]) @ t3))
                | (Inr sub, t3) \<Rightarrow>
                    (let source5 = addFinalizer c source3;
                         source6 = source5\<lparr>Status := MarkSubscribed (Status source5)\<rparr>
                     in case createReceiveAdapter c source6 sub sinkURI '''' of
                          (Inl err, t4) \<Rightarrow>
                            (Some err, source6, stamp source3 ((t0 @ [GetSinkURI (SourceSink (Spec source)) ?ns]) @ t3) @ stamp source6 t4)
                        | (Inr ra, t4) \<Rightarrow>
                            (let source7 = source6\<lparr>Status := MarkDeployed (Status source6)\<rparr>;
                                 source8 = source7\<lparr>Status := (Status source7)
                                   \<lparr>ObservedGeneration := Generation (ObjectMeta source7)\<rparr>\<rparr>
                             in (None, source8, stamp source3 ((t0 @ [GetSinkURI (SourceSink (Spec source)) ?ns]) @ t3) @ stamp source6 t4))))"
          using project_ok live2 sink None unfolding source3_def
          by (simp add: reconcile_def Let_def meta2 spec2)
        then show thesis
          by (rule rest[OF _ meta3 spec3]) (use t0 in auto)
      next
        case (Some tref)
        show thesis
        proof (cases "onGetSinkURI c tref ?ns")
          case (Inl e)
          from run project_ok live2 sink Some Inl have "err = Some e"
            "source' = source3\<lparr>Status := MarkNoSink ''NotFound'' '''' (Status source3)\<rparr>"
            "tr = stamp source (t0 @ [GetSinkURI (SourceSink (Spec source)) ?ns, GetSinkURI tref ?ns])"
            by (auto simp: reconcile_def Let_def stamp2 meta2 spec2 source3_def)
          with meta3 spec3 t0 show thesis
            by (intro before_subscription[of e
                  "t0 @ [GetSinkURI (SourceSink (Spec source)) ?ns, GetSinkURI tref ?ns]"]) auto
        next
          case (Inr transformerURI)
          define source4 where
            "source4 = source2\<lparr>Status := MarkSink sinkURI (MarkSink sinkURI (Status source2))\<rparr>"
          have meta4: "ObjectMeta source4 = ObjectMeta source" and spec4: "Spec source4 = Spec source"
            by (simp_all add: source4_def meta2 spec2)
          have "reconcile c source =
               (case createSubscription c source4 of
                  (Inl err, t3) \<Rightarrow> (Some err, source4, stamp source4 ((t0 @ [GetSinkURI (SourceSink (Spec source)) ?ns, GetSinkURI tref ?ns]) @ t3))
                | (Inr sub, t3) \<Rightarrow>
                    (let source5 = addFinalizer c source4;
                         source6 = source5\<lparr>Status := MarkSubscribed (Status source5)\<rparr>
                     in case createReceiveAdapter c source6 sub sinkURI transformerURI of
                          (Inl err, t4) \<Rightarrow>
                            (Some err, source6, stamp source4 ((t0 @ [GetSinkURI (SourceSink (Spec source)) ?ns, GetSinkURI tref ?ns]) @ t3) @ stamp source6 t4)
                        | (Inr ra, t4) \<Rightarrow>
                            (let source7 = source6\<lparr>Status := MarkDeployed (Status source6)\<rparr>;
                                 source8 = source7\<lparr>Status := (Status source7)
                                   \<lparr>ObservedGeneration := Generation (ObjectMeta source7)\<rparr>\<rparr>
                             in (None, source8, stamp source4 ((t0 @ [GetSinkURI (SourceSink (Spec source)) ?ns, GetSinkURI tref ?ns]) @ t3) @ stamp source6 t4))))"
            using project_ok live2 sink Some Inr unfolding source4_def
            by (simp add: reconcile_def Let_def meta2 spec2)
          then show thesis
            by (rule rest[OF _ meta4 spec4]) (use t0 in auto)
        qed
      qed
    qed
  qed
qed

lemma finalizerAddedAfterFirstCreate_iff:
  "finalizerAddedAfterFirstCreate fn loaded tr \<longleftrightarrow>
     (\<forall>x fins. (x, fins) \<in> set tr \<longrightarrow>
        (createsFirstResource x \<longrightarrow> fins = loaded) \<and> (createsLaterResource x \<longrightarrow> fn \<in> set fins))"
  by (auto simp: finalizerAddedAfterFirstCreate_def list_all_iff)

lemma finalizerName_in_addFinalizer:
  "finalizerName c \<in> set (Finalizers (ObjectMeta (addFinalizer c r)))"
  by (simp add: Finalizers_addFinalizer)

lemma sourceEnv0_simps [simp]:
  "controllerAgentName sourceEnv0 = ''pubsub-source-controller''"
  "onSplitMetaNamespaceKey sourceEnv0 = (\<lambda>key. Inr (''default'', ''my-source''))"
  "onGetSinkURI sourceEnv0 = (\<lambda>ref namespace. Inr ''http://sink.default.svc/'')"
  "receiveAdapterImage sourceEnv0 = ''receive-adapter''"
  "onMetadataProjectID sourceEnv0 = Inr ''proj''"
  "onPubSubClientCreator sourceEnv0 = (\<lambda>project. None)"
  "onSubscriptionExists sourceEnv0 = (\<lambda>project sub. Inr False)"
  "onCreateSubscription sourceEnv0 = (\<lambda>project sub topic. Inr sub)"
  "onSubscriptionDelete sourceEnv0 = (\<lambda>project sub. None)"
  "onDeploymentsList sourceEnv0 = (\<lambda>namespace selector. Inr [])"
  "onDeploymentsCreate sourceEnv0 = (\<lambda>namespace dp. Inr dp)"
  "GenerateSubName sourceEnv0 = (\<lambda>src. ''cre-pull-'' @ UID (ObjectMeta src))"
  "GetLabelSelector sourceEnv0 = (\<lambda>agent name. ''source='' @ name)"
  "MakeReceiveAdapter sourceEnv0 =
     (\<lambda>args. \<lparr>DeploymentName = ''pubsub-'' @ Name (ObjectMeta (Source args)),
               ControllerUID = Some (UID (ObjectMeta (Source args)))\<rparr>)"
  "sourceLister sourceEnv0 = (\<lambda>namespace name. Inr source0)"
  "onPubSubSourcesUpdateStatus sourceEnv0 = (\<lambda>s. Inr s)"
  "onPubSubSourcesPatch sourceEnv0 =
     (\<lambda>namespace name finalizers version.
        Inr (source0\<lparr>ObjectMeta := (ObjectMeta source0)\<lparr>Finalizers := finalizers\<rparr>\<rparr>))"
  by (simp_all add: sourceEnv0_def)

lemmas source_eval_defs =
  reconcile_def resolveProjectID_def createSubscription_def deleteSubscription_def
  createReceiveAdapter_def getReceiveAdapter_def Let_def addFinalizer_code removeFinalizer_code
  finalizerName_def SourceInitializeConditions_def MarkNoSink_def MarkSink_def MarkSubscribed_def
  MarkDeployed_def markTrue_def markFalse_def sourceConditionTypes_def IsControlledBy_def

lemma source0_first_pass:
  "reconcile sourceEnv0 source0 =
     (None,
      source0\<lparr>ObjectMeta := (ObjectMeta source0)\<lparr>Finalizers := [''pubsub-source-controller'']\<rparr>,
              Status := \<lparr>SourceConditions =
                           [\<lparr>ctype = SinkProvided, cstatus = ConditionTrue, reason = [], message = []\<rparr>,
                            \<lparr>ctype = Subscribed, cstatus = ConditionTrue, reason = [], message = []\<rparr>,
                            \<lparr>ctype = Deployed, cstatus = ConditionTrue, reason = [], message = []\<rparr>],
                         SourceSinkURI = ''http://sink.default.svc/'',
                         ProjectID = ''proj'', ObservedGeneration = 1\<rparr>\<rparr>,
      [(GetSinkURI \<lparr>RefKind = ''Service'', RefName = ''sink''\<rparr> ''default'', []),
       (PubSubClientCreator ''proj'', []),
       (SubscriptionExists ''proj'' ''cre-pull-uid-1'', []),
       (CreateSubscription ''proj'' ''cre-pull-uid-1'' ''events'', []),
       (DeploymentsList ''default'' ''source=my-source'', [''pubsub-source-controller'']),
       (DeploymentsCreate ''default''
          \<lparr>DeploymentName = ''pubsub-my-source'', ControllerUID = Some ''uid-1''\<rparr>,
        [''pubsub-source-controller''])])"
  by (simp add: source_eval_defs source0_def meta0_def)

section \<open>Failing create and delete calls\<close>

lemma getCondition_setCondition: "getCondition (ctype c) (setCondition c cs) = Some c"
  by (induction cs) auto

lemma getCondition_markFalse:
  "getCondition t (markFalse t r m cs) = Some \<lparr>ctype = t, cstatus = ConditionFalse, reason = r, message = m\<rparr>"
  using getCondition_setCondition[of "\<lparr>ctype = t, cstatus = ConditionFalse, reason = r, message = m\<rparr>" cs]
  by (simp add: markFalse_def)

















section \<open>Persisting finalizers, and the unresolved sink, in the two reconcilers\<close>

text \<open>
  The PubSubSource reconciler patches a change of the finalizers alone: for the settled
  source that is being deleted, the pass removes the finalizer in memory, the status is
  unchanged, and \<^verbatim>\<open>updateFinalizers\<close> sends the patch.
\<close>

lemma source_finalizer_change_is_patched:
  "SourceReconcile sourceEnvDeletingSettled ''default/my-source'' =
     (None,
      [(PubSubClientCreator ''proj'', [''pubsub-source-controller'']),
       (SubscriptionExists ''proj'' ''cre-pull-uid-1'', [''pubsub-source-controller'']),
       (PubSubSourcesPatch ''default'' ''my-source'' [] ''7'', [])])"
  by (simp add: SourceReconcile_def updateFinalizers_def sourceUpdateStatus_def source_eval_defs
        sourceEnvDeletingSettled_def sourceDeletingSettled_def sourceDeleting_def source0_def meta0_def
        NewString_def Has_def Delete_def List_def)

text \<open>
  Whatever \<^verbatim>\<open>updateStatus\<close> of the GCS reconciler sends carries the metadata, and so
  the finalizers, of the lister's copy, never those of the reconciled copy.
\<close>

lemma updateStatus_keeps_metadata:
  assumes "updateStatus c desired = (r, cs)" and "GCSsUpdateStatus g \<in> set cs"
  shows "\<exists>src. gcsLister c (Namespace (ObjectMeta desired)) (Name (ObjectMeta desired)) = Inr src
           \<and> ObjectMeta g = ObjectMeta src"
  using assms
  by (auto simp: updateStatus_def Let_def split: sum.splits if_splits)

text \<open>
  The PubSubSource reconciler marks an unresolved sink: once the project is resolved, a
  pass over a source that is not being deleted and whose sink does not resolve returns
  the error, sets the condition \<open>SinkProvided\<close> to False with reason \<^verbatim>\<open>NotFound\<close>
  and leaves the finalizers as they were.
\<close>

lemma source_unresolved_sink_is_marked:
  assumes "DeletionTimestamp (ObjectMeta source) = None"
    and "resolveProjectID d (source\<lparr>Status := SourceInitializeConditions (Status source)\<rparr>)
           = (None, source2, t0)"
    and "onGetSinkURI d (SourceSink (Spec source)) (Namespace (ObjectMeta source)) = Inl e"
  shows "reconcile d source =
           (Some e, source2\<lparr>Status := MarkNoSink ''NotFound'' '''' (Status source2)\<rparr>,
            stamp source (t0 @ [GetSinkURI (SourceSink (Spec source)) (Namespace (ObjectMeta source))]))
         \<and> getCondition SinkProvided
              (SourceConditions (MarkNoSink ''NotFound'' '''' (Status source2))) =
             Some \<lparr>ctype = SinkProvided, cstatus = ConditionFalse, reason = ''NotFound'', message = ''''\<rparr>
         \<and> Finalizers (ObjectMeta source2) = Finalizers (ObjectMeta source)"
proof -
  have meta2: "ObjectMeta source2 = ObjectMeta source" and spec2: "Spec source2 = Spec source"
    using resolveProjectID_frame[OF assms(2)] by simp_all
  have "reconcile d source =
           (Some e, source2\<lparr>Status := MarkNoSink ''NotFound'' '''' (Status source2)\<rparr>,
            stamp source (t0 @ [GetSinkURI (SourceSink (Spec source)) (Namespace (ObjectMeta source))]))"
    using assms meta2 spec2 by (simp add: reconcile_def Let_def stamp_def)
  then show ?thesis
    by (simp add: MarkNoSink_def getCondition_markFalse meta2)
qed

section \<open>Claims\<close>

text \<open>
  C1, as stated: in every pass over a record that is not being deleted the finalizer
  is on the in-memory record before the first external resource is created. It is not:
  the first pass over a new GCS source creates the topic while the record holds no
  finalizer, and succeeds.
\<close>

theorem finalizer_before_first_create_counterexample:
  "DeletionTimestamp (ObjectMeta gcs0) = None
   \<and> fst (reconcileGCSSource gcsEnv0 gcs0) = None
   \<and> (CreateTopic ''proj'' ''gcs-1b4e28ba'', []) \<in> set (snd (snd (reconcileGCSSource gcsEnv0 gcs0)))
   \<and> \<not> finalizerHeldAtEveryCreate (finalizerName gcsEnv0) (snd (snd (reconcileGCSSource gcsEnv0 gcs0)))"
  by (simp add: gcs0_first_pass finalizerHeldAtEveryCreate_def finalizerName_def)
     (simp add: gcs0_def meta0_def)

text \<open>
  C1, amended. In every pass over a record that is not being deleted, the controller's
  finalizer is added to the in-memory record after the first external resource (the
  topic of a GCS source, the subscription of a PubSubSource) has been got or created and
  before any later resource is created: the create call of the first resource is made
  with the finalizers the record was loaded with, and every later create call (the
  PullSubscription and the notification of a GCS source, the receive-adapter Deployment
  of a PubSubSource) is made with the controller's finalizer on the record.
\<close>

theorem finalizer_added_after_first_create:
  assumes "DeletionTimestamp (ObjectMeta csr) = None"
    and "reconcileGCSSource c csr = (err, csr', tr)"
    and "DeletionTimestamp (ObjectMeta source) = None"
    and "reconcile d source = (err2, source', tr2)"
  shows "finalizerAddedAfterFirstCreate (finalizerName c) (Finalizers (ObjectMeta csr)) tr
         \<and> finalizerAddedAfterFirstCreate (finalizerName d) (Finalizers (ObjectMeta source)) tr2"
proof -
  have gcs: "finalizerAddedAfterFirstCreate (finalizerName c) (Finalizers (ObjectMeta csr)) tr"
    using assms(2,1)
  proof (cases rule: reconcileGCSSource_live_cases)
    case (sink_fails e)
    then show ?thesis by (simp add: finalizerAddedAfterFirstCreate_iff)
  next
    case (topic_fails uri e csr2 t1)
    then show ?thesis
      by (auto simp: finalizerAddedAfterFirstCreate_iff in_stamp dest: reconcileTopic_calls)
  next
    case (pubsub_fails uri csr2 t1 csr5 e t2)
    have "finalizerName c \<in> set (Finalizers (ObjectMeta csr5))"
      unfolding pubsub_fails(3) by (rule finalizerName_in_addFinalizer)
    with pubsub_fails show ?thesis
      by (auto simp: finalizerAddedAfterFirstCreate_iff in_stamp
               dest: reconcileTopic_calls reconcilePubSub_calls)
  next
    case (notification_fails uri csr2 t1 csr5 pubsub t2 csr6 e t3)
    have "finalizerName c \<in> set (Finalizers (ObjectMeta csr5))"
      unfolding notification_fails(3) by (rule finalizerName_in_addFinalizer)
    with notification_fails show ?thesis
      by (auto simp: finalizerAddedAfterFirstCreate_iff in_stamp
               dest: reconcileTopic_calls reconcilePubSub_calls reconcileNotification_calls)
  next
    case (converged uri csr2 t1 csr5 pubsub t2 csr6 notification t3)
    have "finalizerName c \<in> set (Finalizers (ObjectMeta csr5))"
      unfolding converged(3) by (rule finalizerName_in_addFinalizer)
    with converged show ?thesis
      by (auto simp: finalizerAddedAfterFirstCreate_iff in_stamp
               dest: reconcileTopic_calls reconcilePubSub_calls reconcileNotification_calls)
  qed
  have src: "finalizerAddedAfterFirstCreate (finalizerName d) (Finalizers (ObjectMeta source)) tr2"
    using assms(4,3)
  proof (cases rule: reconcile_live_cases)
    case (before_subscription e t)
    then show ?thesis
      by (fastforce simp: finalizerAddedAfterFirstCreate_iff in_stamp)
  next
    case (subscription_fails source4 t2 e t3)
    then show ?thesis
      by (fastforce simp: finalizerAddedAfterFirstCreate_iff in_stamp dest: createSubscription_calls)
  next
    case (adapter_fails source4 t2 sub t3 source6 sinkURI transformerURI e t4)
    have "finalizerName d \<in> set (Finalizers (ObjectMeta source6))"
      unfolding adapter_fails(5) by (rule finalizerName_in_addFinalizer)
    with adapter_fails show ?thesis
      by (fastforce simp: finalizerAddedAfterFirstCreate_iff in_stamp
               dest: createSubscription_calls createReceiveAdapter_calls)
  next
    case (converged source4 t2 sub t3 source6 sinkURI transformerURI ra t4)
    have "finalizerName d \<in> set (Finalizers (ObjectMeta source6))"
      unfolding converged(5) by (rule finalizerName_in_addFinalizer)
    with converged show ?thesis
      by (fastforce simp: finalizerAddedAfterFirstCreate_iff in_stamp
               dest: createSubscription_calls createReceiveAdapter_calls)
  qed
  from gcs src show ?thesis by simp
qed

theorem finalizer_added_after_first_create_witness:
  "finalizerAddedAfterFirstCreate ''gcs-controller'' [] (snd (snd (reconcileGCSSource gcsEnv0 gcs0)))
   \<and> (CreateTopic ''proj'' ''gcs-1b4e28ba'', []) \<in> set (snd (snd (reconcileGCSSource gcsEnv0 gcs0)))
   \<and> (PullSubscriptionsCreate ''default''
          \<lparr>PullSubscriptionName = ''my-gcs'', PullSubscriptionNamespace = ''default'',
           PullSubscriptionIsReady = False\<rparr>, [''gcs-controller''])
        \<in> set (snd (snd (reconcileGCSSource gcsEnv0 gcs0)))
   \<and> finalizerAddedAfterFirstCreate ''pubsub-source-controller'' []
        (snd (snd (reconcile sourceEnv0 source0)))
   \<and> (CreateSubscription ''proj'' ''cre-pull-uid-1'' ''events'', [])
        \<in> set (snd (snd (reconcile sourceEnv0 source0)))
   \<and> (DeploymentsCreate ''default''
          \<lparr>DeploymentName = ''pubsub-my-source'', ControllerUID = Some ''uid-1''\<rparr>,
        [''pubsub-source-controller''])
        \<in> set (snd (snd (reconcile sourceEnv0 source0)))"
proof -
  have live: "DeletionTimestamp (ObjectMeta gcs0) = None" "DeletionTimestamp (ObjectMeta source0) = None"
    by (simp_all add: gcs0_def source0_def meta0_def)
  have run: "reconcileGCSSource gcsEnv0 gcs0 =
      (fst (reconcileGCSSource gcsEnv0 gcs0), fst (snd (reconcileGCSSource gcsEnv0 gcs0)),
       snd (snd (reconcileGCSSource gcsEnv0 gcs0)))"
    "reconcile sourceEnv0 source0 =
      (fst (reconcile sourceEnv0 source0), fst (snd (reconcile sourceEnv0 source0)),
       snd (snd (reconcile sourceEnv0 source0)))"
    by simp_all
  have names: "finalizerName gcsEnv0 = ''gcs-controller''"
    "finalizerName sourceEnv0 = ''pubsub-source-controller''"
    "Finalizers (ObjectMeta gcs0) = []" "Finalizers (ObjectMeta source0) = []"
    by (simp_all add: finalizerName_def gcs0_def source0_def meta0_def)
  have events:
    "(CreateTopic ''proj'' ''gcs-1b4e28ba'', []) \<in> set (snd (snd (reconcileGCSSource gcsEnv0 gcs0)))"
    "(PullSubscriptionsCreate ''default''
          \<lparr>PullSubscriptionName = ''my-gcs'', PullSubscriptionNamespace = ''default'',
           PullSubscriptionIsReady = False\<rparr>, [''gcs-controller''])
        \<in> set (snd (snd (reconcileGCSSource gcsEnv0 gcs0)))"
    "(CreateSubscription ''proj'' ''cre-pull-uid-1'' ''events'', [])
        \<in> set (snd (snd (reconcile sourceEnv0 source0)))"
    "(DeploymentsCreate ''default''
          \<lparr>DeploymentName = ''pubsub-my-source'', ControllerUID = Some ''uid-1''\<rparr>,
        [''pubsub-source-controller''])
        \<in> set (snd (snd (reconcile sourceEnv0 source0)))"
    by (simp_all add: gcs0_first_pass source0_first_pass)
  from finalizer_added_after_first_create[OF live(1) run(1) live(2) run(2)] names events
  show ?thesis by simp
qed




text \<open>
  C3. Get-or-create of the topic is idempotent. On a first pass over a record whose
  status holds no topic name, \<^verbatim>\<open>reconcileTopic\<close> generates the name
  \<^verbatim>\<open>gcs-<uuid>\<close> and leaves it in the status whatever the outcome of the pass, and
  every call of the pass that names a topic, the create call included, names that
  topic. A second pass in which the client can be made and the existence check answers
  true returns success, makes the client and the existence check and no create call, and
  leaves the record, with its stored name, as it was (whatever UUID the generator would
  draw now).
\<close>

theorem topic_get_or_create_idempotent:
  assumes "Topic (Status csr) = ''''"
    and "reconcileTopic c csr = (err1, csr1, calls1)"
    and "onPubSubNewClient c' (GoogleCloudProject (Spec csr1)) = None"
    and "onTopicExists c' (GoogleCloudProject (Spec csr1)) (Topic (Status csr1)) = Inr True"
  shows "Topic (Status csr1) = ''gcs-'' @ onUUIDNew c
    \<and> (\<forall>x \<in> set calls1.
          x = PubSubNewClient (GoogleCloudProject (Spec csr))
          \<or> x = TopicExists (GoogleCloudProject (Spec csr)) (''gcs-'' @ onUUIDNew c)
          \<or> x = CreateTopic (GoogleCloudProject (Spec csr)) (''gcs-'' @ onUUIDNew c))
    \<and> reconcileTopic c' csr1 =
          (None, csr1,
           [PubSubNewClient (GoogleCloudProject (Spec csr)),
            TopicExists (GoogleCloudProject (Spec csr)) (''gcs-'' @ onUUIDNew c)])"
proof -
  have name: "Topic (Status csr1) = ''gcs-'' @ onUUIDNew c"
    using assms(1,2)
    by (auto simp: reconcileTopic_def Let_def split: option.splits sum.splits if_splits)
  have spec: "Spec csr1 = Spec csr"
    using reconcileTopic_frame(1)[OF assms(2)] .
  have calls: "\<forall>x \<in> set calls1.
          x = PubSubNewClient (GoogleCloudProject (Spec csr))
          \<or> x = TopicExists (GoogleCloudProject (Spec csr)) (''gcs-'' @ onUUIDNew c)
          \<or> x = CreateTopic (GoogleCloudProject (Spec csr)) (''gcs-'' @ onUUIDNew c)"
    using reconcileTopic_calls[OF assms(2)] name by auto
  have second: "reconcileTopic c' csr1 =
          (None, csr1,
           [PubSubNewClient (GoogleCloudProject (Spec csr)),
            TopicExists (GoogleCloudProject (Spec csr)) (''gcs-'' @ onUUIDNew c)])"
    using assms(3,4) name spec by (simp add: reconcileTopic_def Let_def)
  from name calls second show ?thesis by blast
qed

theorem topic_get_or_create_idempotent_witness:
  "Topic (Status gcs0) = ''''
   \<and> reconcileTopic gcsEnv0 gcs0 =
       (None, gcs1, [PubSubNewClient ''proj'', TopicExists ''proj'' ''gcs-1b4e28ba'',
                     CreateTopic ''proj'' ''gcs-1b4e28ba''])
   \<and> Topic (Status gcs1) = ''gcs-1b4e28ba''
   \<and> onUUIDNew gcsEnv1 = ''9c5b94b1''
   \<and> reconcileTopic gcsEnv1 gcs1 =
       (None, gcs1, [PubSubNewClient ''proj'', TopicExists ''proj'' ''gcs-1b4e28ba''])"
proof -
  have a: "Topic (Status gcs0) = ''''" by (simp add: gcs0_def)
  have c: "onPubSubNewClient gcsEnv1 (GoogleCloudProject (Spec gcs1)) = None"
    by (simp add: gcsEnv1_def)
  have d: "onTopicExists gcsEnv1 (GoogleCloudProject (Spec gcs1)) (Topic (Status gcs1)) = Inr True"
    by (simp add: gcsEnv1_def gcs1_def gcs0_def)
  have e: "onUUIDNew gcsEnv1 = ''9c5b94b1''" by (simp add: gcsEnv1_def)
  have f: "GoogleCloudProject (Spec gcs0) = ''proj''" by (simp add: gcs0_def)
  from topic_get_or_create_idempotent[OF a gcs1_is_first_pass c d] a gcs1_is_first_pass e f
  show ?thesis by simp
qed

text \<open>
  C4. Persisting status and persisting finalizers should be independent steps, so that
  a change of the finalizers alone is persisted when the status is unchanged. In the GCS
  reconciler it is not. For the source marked for deletion with nothing created for it,
  the pass removes the controller's finalizer from the in-memory copy and leaves the
  status as it is; \<^verbatim>\<open>Reconcile\<close> sees the changed metadata and calls
  \<^verbatim>\<open>updateStatus\<close>, which compares the status only and returns without a call; so
  \<^verbatim>\<open>Reconcile\<close> returns success having made no update at all, and the finalizer
  stays on the stored record.
\<close>

theorem gcs_finalizer_change_is_not_persisted:
  "Finalizers (ObjectMeta gcsDeletingEmpty) = [''gcs-controller'']
   \<and> reconcileGCSSource gcsEnvDeletingEmpty gcsDeletingEmpty =
       (None,
        gcsDeletingEmpty\<lparr>ObjectMeta := (ObjectMeta gcsDeletingEmpty)\<lparr>Finalizers := []\<rparr>\<rparr>,
        [(GetSinkURI \<lparr>RefKind = ''Service'', RefName = ''sink''\<rparr> ''default'', [''gcs-controller''])])
   \<and> updateStatus gcsEnvDeletingEmpty
         (gcsDeletingEmpty\<lparr>ObjectMeta := (ObjectMeta gcsDeletingEmpty)\<lparr>Finalizers := []\<rparr>\<rparr>) =
       (Inr gcsDeletingEmpty, [])
   \<and> Reconcile gcsEnvDeletingEmpty ''default/my-gcs'' =
       (None, [(GetSinkURI \<lparr>RefKind = ''Service'', RefName = ''sink''\<rparr> ''default'', [''gcs-controller''])])"
  by (simp add: Reconcile_def updateStatus_def eval_defs gcsEnvDeletingEmpty_def gcsDeletingEmpty_def
        gcs0_def meta0_def)

text \<open>
  C5. When the deletion marker of a record is set and its status holds a notification
  identifier, the reconcile should ask for the deletion of exactly that identifier,
  take the provider's not-found answer as success, clear the topic in the status,
  remove the controller's finalizer and return success. \<^verbatim>\<open>reconcileGCSSource\<close> asks
  for the deletion of exactly that identifier, but it does not take the answer as
  success. The Cloud Storage client answers a missing notification with an HTTP 404
  error, which carries no gRPC status; \<^verbatim>\<open>deleteNotification\<close> tolerates only an error
  with the gRPC status NotFound, so it returns this one as an unknown error of the
  client, and the pass returns it at once: the topic is not deleted, and the topic and
  the finalizer stay on the record.
\<close>

theorem deletion_with_notification_gone_keeps_finalizer:
  "DeletionTimestamp (ObjectMeta gcsDeleting) = Some 1
   \<and> NotificationID (Status gcsDeleting) = ''42''
   \<and> onDeleteNotification gcsEnvGone ''b'' ''42'' =
       Some (ErrorString ''googleapi: Error 404: Not Found, notFound'')
   \<and> FromError (ErrorString ''googleapi: Error 404: Not Found, notFound'') = None
   \<and> deleteNotification gcsEnvGone gcsDeleting =
       (Some (ErrorString ''googleapi: Error 404: Not Found, notFound''),
        [StorageNewClient, DeleteNotification ''b'' ''42''])
   \<and> reconcileGCSSource gcsEnvGone gcsDeleting =
       (Some (ErrorString ''googleapi: Error 404: Not Found, notFound''),
        gcsDeleting,
        [(GetSinkURI \<lparr>RefKind = ''Service'', RefName = ''sink''\<rparr> ''default'', [''gcs-controller'']),
         (StorageNewClient, [''gcs-controller'']),
         (DeleteNotification ''b'' ''42'', [''gcs-controller''])])
   \<and> Topic (Status gcsDeleting) = ''gcs-1b4e28ba''
   \<and> finalizerName gcsEnvGone \<in> set (Finalizers (ObjectMeta gcsDeleting))"
  by (simp add: eval_defs gcsEnvGone_def)
     (simp add: gcsDeleting_def gcs0_def meta0_def)

text \<open>
  C6. When the sink does not resolve in a pass over a record that is not being deleted,
  the reconcile should return the error, set the sink condition to False with reason
  \<^verbatim>\<open>NotFound\<close> and add no finalizer. \<^verbatim>\<open>reconcileGCSSource\<close> returns the error and
  adds no finalizer, but it sets no condition: the record comes back exactly as it was
  loaded, with no condition at all (the call that would mark the sink is commented
  out in the source, under a TODO).
\<close>

theorem gcs_unresolved_sink_sets_no_condition:
  "DeletionTimestamp (ObjectMeta gcs0) = None
   \<and> onGetSinkURI gcsEnvNoSink (Sink (Spec gcs0)) (Namespace (ObjectMeta gcs0)) =
       Inl (ErrorString ''sink not found'')
   \<and> reconcileGCSSource gcsEnvNoSink gcs0 =
       (Some (ErrorString ''sink not found''), gcs0,
        [(GetSinkURI \<lparr>RefKind = ''Service'', RefName = ''sink''\<rparr> ''default'', [])])
   \<and> Conditions (Status gcs0) = []
   \<and> \<not> hasFalseCondition (Conditions (Status (fst (snd (reconcileGCSSource gcsEnvNoSink gcs0)))))"
  by (simp add: reconcileGCSSource_def gcsEnvNoSink_def hasFalseCondition_def)
     (simp add: gcs0_def meta0_def)

text \<open>
  C7. When the key of a reconcile invocation names no record any more (the lister
  answers not-found), the reconcile returns success (nil) and makes no call at all: no
  call to the provider and no update or patch of the record. This holds for the GCS
  reconciler and for the PubSubSource reconciler.
\<close>

theorem reconcile_of_missing_record_does_nothing:
  assumes "onSplitMetaNamespaceKey c key = Inr (namespace, name)"
    and "gcsLister c namespace name = Inl err"
    and "IsNotFound err"
    and "onSplitMetaNamespaceKey d key' = Inr (namespace', name')"
    and "sourceLister d namespace' name' = Inl err'"
    and "IsNotFound err'"
  shows "Reconcile c key = (None, []) \<and> SourceReconcile d key' = (None, [])"
  using assms by (simp add: Reconcile_def SourceReconcile_def)

theorem reconcile_of_missing_record_does_nothing_witness:
  "Reconcile (gcsEnv0\<lparr>gcsLister := (\<lambda>namespace name. Inl (APIStatusError StatusReasonNotFound ''gcs not found''))\<rparr>)
     ''default/my-gcs'' = (None, [])
   \<and> SourceReconcile (sourceEnv0\<lparr>sourceLister := (\<lambda>namespace name. Inl (APIStatusError StatusReasonNotFound ''source not found''))\<rparr>)
     ''default/my-source'' = (None, [])"
  by (rule reconcile_of_missing_record_does_nothing
        [where namespace = "''default''" and name = "''my-gcs''"
           and namespace' = "''default''" and name' = "''my-source''"
           and err = "APIStatusError StatusReasonNotFound ''gcs not found''"
           and err' = "APIStatusError StatusReasonNotFound ''source not found''"])
     (simp_all add: gcsEnv0_def sourceEnv0_def)




text \<open>
  C9. Every notification the GCS reconciler asks the provider to add carries the custom
  attribute \<^verbatim>\<open>ce-type\<close> with value \<^verbatim>\<open>google.gcs\<close>: its attributes are the
  attributes of the spec with \<^verbatim>\<open>ce-type\<close> overwritten, so a value the user supplied
  for that key never reaches the provider, and the spec of the record (its attribute map
  included) is what it was before the pass.
\<close>

theorem created_notification_carries_ce_type:
  assumes "reconcileGCSSource c csr = (err, csr', tr)"
    and "(AddNotification bucket n, fins) \<in> set tr"
  shows "NotificationCustomAttributes n = (CustomAttributes (Spec csr))(''ce-type'' \<mapsto> ''google.gcs'')
         \<and> NotificationCustomAttributes n ''ce-type'' = Some ''google.gcs''
         \<and> Spec csr' = Spec csr"
proof -
  have attrs: "NotificationCustomAttributes n = (CustomAttributes (Spec csr))(''ce-type'' \<mapsto> ''google.gcs'')"
  proof (cases "DeletionTimestamp (ObjectMeta csr)")
    case (Some ts)
    then have "DeletionTimestamp (ObjectMeta csr) \<noteq> None" by simp
    from reconcileGCSSource_deleting_events[OF assms(1) this assms(2)] show ?thesis by simp
  next
    case None
    from assms(1) None show ?thesis
    proof (cases rule: reconcileGCSSource_live_cases)
      case (sink_fails e)
      with assms(2) show ?thesis by simp
    next
      case (topic_fails uri e csr2 t1)
      with assms(2) show ?thesis
        by (auto simp: in_stamp dest: reconcileTopic_calls)
    next
      case (pubsub_fails uri csr2 t1 csr5 e t2)
      with assms(2) show ?thesis
        by (auto simp: in_stamp dest: reconcileTopic_calls reconcilePubSub_calls)
    next
      case (notification_fails uri csr2 t1 csr5 pubsub t2 csr6 e t3)
      have "Spec csr6 = Spec csr"
        using notification_fails(3,5) reconcileTopic_frame(1)[OF notification_fails(2)]
        by (simp add: addFinalizer_eq)
      with notification_fails assms(2) show ?thesis
        by (auto simp: in_stamp dest: reconcileTopic_calls reconcilePubSub_calls
              reconcileNotification_calls)
    next
      case (converged uri csr2 t1 csr5 pubsub t2 csr6 notification t3)
      have "Spec csr6 = Spec csr"
        using converged(3,5) reconcileTopic_frame(1)[OF converged(2)]
        by (simp add: addFinalizer_eq)
      with converged assms(2) show ?thesis
        by (auto simp: in_stamp dest: reconcileTopic_calls reconcilePubSub_calls
              reconcileNotification_calls)
    qed
  qed
  then show ?thesis
    using reconcileGCSSource_Spec[OF assms(1)] by simp
qed

theorem created_notification_carries_ce_type_witness:
  "CustomAttributes (Spec gcs0) ''ce-type'' = Some ''user.type''
   \<and> (AddNotification ''b'' notification0, [''gcs-controller''])
        \<in> set (snd (snd (reconcileGCSSource gcsEnv0 gcs0)))
   \<and> NotificationCustomAttributes notification0 ''ce-type'' = Some ''google.gcs''
   \<and> NotificationCustomAttributes notification0 ''team'' = Some ''blue''
   \<and> CustomAttributes (Spec (fst (snd (reconcileGCSSource gcsEnv0 gcs0)))) ''ce-type''
        = Some ''user.type''"
proof -
  have run: "reconcileGCSSource gcsEnv0 gcs0 =
      (fst (reconcileGCSSource gcsEnv0 gcs0), fst (snd (reconcileGCSSource gcsEnv0 gcs0)),
       snd (snd (reconcileGCSSource gcsEnv0 gcs0)))"
    by simp
  have ev: "(AddNotification ''b'' notification0, [''gcs-controller''])
        \<in> set (snd (snd (reconcileGCSSource gcsEnv0 gcs0)))"
    by (simp add: gcs0_first_pass notification0_def gcs0_attributes)
  have user: "CustomAttributes (Spec gcs0) ''ce-type'' = Some ''user.type''"
    by (simp add: gcs0_def)
  have team: "NotificationCustomAttributes notification0 ''team'' = Some ''blue''"
    by (simp add: notification0_def)
  from created_notification_carries_ce_type[OF run ev] user ev team show ?thesis
    by simp
qed

text \<open>
  C10. \<^verbatim>\<open>addFinalizer\<close> and \<^verbatim>\<open>removeFinalizer\<close> are idempotent set operations on
  the finalizer list of the record: applying one twice gives what applying it once
  gives; the resulting list has no duplicates; as a set, the result is the old
  finalizers with the controller's own name inserted, respectively removed, so every
  other finalizer is preserved; and nothing but the finalizer list of the record changes.
\<close>

theorem finalizer_operations_idempotent:
  "addFinalizer c (addFinalizer c r) = addFinalizer c r
   \<and> removeFinalizer c (removeFinalizer c r) = removeFinalizer c r
   \<and> distinct (Finalizers (ObjectMeta (addFinalizer c r)))
   \<and> distinct (Finalizers (ObjectMeta (removeFinalizer c r)))
   \<and> set (Finalizers (ObjectMeta (addFinalizer c r))) =
       insert (finalizerName c) (set (Finalizers (ObjectMeta r)))
   \<and> set (Finalizers (ObjectMeta (removeFinalizer c r))) =
       set (Finalizers (ObjectMeta r)) - {finalizerName c}
   \<and> addFinalizer c r =
       r\<lparr>ObjectMeta := (ObjectMeta r)\<lparr>Finalizers := Finalizers (ObjectMeta (addFinalizer c r))\<rparr>\<rparr>
   \<and> removeFinalizer c r =
       r\<lparr>ObjectMeta := (ObjectMeta r)\<lparr>Finalizers := Finalizers (ObjectMeta (removeFinalizer c r))\<rparr>\<rparr>"
  by (simp add: addFinalizer_eq removeFinalizer_eq set_List distinct_List)

end
